theory Spec2Isabelle
  imports Complex_Main "HOL-Library.Word"
begin

unbundle bit_operations_syntax

chapter \<open>The web front end of E Programmer\<close>

text \<open>
  A shallow embedding of the JavaScript that drives the SPI flash programmer from the
  browser: the JSON-RPC envelope codec (\<^verbatim>\<open>serializer.js\<close>, \<^verbatim>\<open>exceptions.js\<close>), the
  channel manager (\<^verbatim>\<open>ws_manager.js\<close>), the byte helpers (\<^verbatim>\<open>utils.js\<close>), the block
  protocol (\<^verbatim>\<open>programmer.js\<close>, of which the repository holds two copies) and the erase
  handler of \<^verbatim>\<open>dom_manager.js\<close>. The first part translates the sources; the second part
  proves properties of the translation.

  Conventions. A function that can throw returns a sum, \<open>Inl\<close> the error. Code that
  waits (\<^verbatim>\<open>await\<close>) is run to completion; what the outside world does meanwhile is an
  argument: the device as a state machine, the receive buffer as each poll finds it.
  Console output and the \<^verbatim>\<open>debug\<close> flags are left out.
\<close>

section \<open>JavaScript numbers\<close>

text \<open>
  The sizes, counts and ids of the programmer front end are JavaScript numbers. They are
  modelled as exact rationals extended with the two infinities and NaN. Rounding of
  doubles is not modelled: sums, products and integral quotients of integers below
  \<open>2 ^ 53\<close> are exact in the source as well. There is no negative zero.
\<close>

datatype jsnum = Num rat | PosInfinity | NegInfinity | NaN

text \<open>\<^verbatim>\<open>a / b\<close>\<close>

fun js_div :: "jsnum \<Rightarrow> jsnum \<Rightarrow> jsnum" where
  "js_div (Num a) (Num b) =
     (if b = 0 then (if a = 0 then NaN else if 0 < a then PosInfinity else NegInfinity)
      else Num (a / b))"
| "js_div (Num a) PosInfinity = Num 0"
| "js_div (Num a) NegInfinity = Num 0"
| "js_div PosInfinity (Num b) = (if 0 \<le> b then PosInfinity else NegInfinity)"
| "js_div NegInfinity (Num b) = (if 0 \<le> b then NegInfinity else PosInfinity)"
| "js_div _ _ = NaN"

text \<open>\<^verbatim>\<open>a % b\<close>: the remainder has the sign of the dividend (truncating division).\<close>

definition js_trunc :: "rat \<Rightarrow> int" where
  "js_trunc x = (if 0 \<le> x then \<lfloor>x\<rfloor> else \<lceil>x\<rceil>)"

fun js_rem :: "jsnum \<Rightarrow> jsnum \<Rightarrow> jsnum" where
  "js_rem (Num a) (Num b) = (if b = 0 then NaN else Num (a - b * of_int (js_trunc (a / b))))"
| "js_rem (Num a) PosInfinity = Num a"
| "js_rem (Num a) NegInfinity = Num a"
| "js_rem _ _ = NaN"

text \<open>\<^verbatim>\<open>a < b\<close>: every comparison with NaN is false.\<close>

fun js_less :: "jsnum \<Rightarrow> jsnum \<Rightarrow> bool" where
  "js_less (Num a) (Num b) = (a < b)"
| "js_less (Num a) PosInfinity = True"
| "js_less NegInfinity (Num b) = True"
| "js_less NegInfinity PosInfinity = True"
| "js_less _ _ = False"

text \<open>\<^verbatim>\<open>a !== 0\<close> on numbers: NaN is not equal to anything.\<close>

definition js_nonzero :: "jsnum \<Rightarrow> bool" where
  "js_nonzero a = (a \<noteq> Num 0)"

abbreviation js_nat :: "nat \<Rightarrow> jsnum" where
  "js_nat n \<equiv> Num (of_nat n)"

section \<open>Byte arrays and the additive checksum\<close>

text \<open>A \<^verbatim>\<open>Uint8Array\<close> is a list of bytes.\<close>

type_synonym uint8array = "8 word list"

text \<open>
  Write side, \<^verbatim>\<open>writeChipBlocks\<close>:
  \<^verbatim>\<open>const crc = blockData.reduce((a, b) => a + b, 0) % 256;\<close>
\<close>

definition write_crc :: "uint8array \<Rightarrow> nat" where
  "write_crc blockData = foldl (\<lambda>a b. a + unat b) 0 blockData mod 256"

text \<open>
  Read side, \<^verbatim>\<open>readChipBlocks\<close>:
  \<^verbatim>\<open>
  const crc = blockData[blockData.length - 1];
  const sum = blockData.slice(0, -1).reduce((a, b) => a + b, 0) % 256;
  if (crc === sum) { valid = true; ... }
  \<close>
  On an empty array the index \<open>-1\<close> reads \<^verbatim>\<open>undefined\<close>, which is not strictly equal
  to the sum \<open>0\<close>.
\<close>

definition read_crc_valid :: "uint8array \<Rightarrow> bool" where
  "read_crc_valid blockData =
     (case blockData of
        [] \<Rightarrow> False
      | _ # _ \<Rightarrow>
          (let crc = unat (last blockData);
               sum = foldl (\<lambda>a b. a + unat b) 0 (butlast blockData) mod 256
           in crc = sum))"

section \<open>Base64 and the payload encoding of \<^verbatim>\<open>utils.js\<close>\<close>

text \<open>
  A JavaScript string is a list of UTF-16 code units. \<^verbatim>\<open>btoa\<close> and \<^verbatim>\<open>atob\<close> are
  built-ins of the browser; they are modelled after the forgiving-base64 encode and decode
  algorithms of the WHATWG Infra standard (RFC 4648 alphabet, \<open>=\<close> padding on output,
  ASCII whitespace and optional padding accepted on input). \<open>None\<close> stands for the
  \<^verbatim>\<open>InvalidCharacterError\<close> they throw.
\<close>

type_synonym jsstring = "nat list"

definition js_str :: "string \<Rightarrow> jsstring" where
  "js_str s = map of_char s"

definition b64_alphabet :: "nat list" where
  "b64_alphabet = js_str ''ABCDEFGHIJKLMNOPQRSTUVWXYZabcdefghijklmnopqrstuvwxyz0123456789+/''"

definition b64_char :: "nat \<Rightarrow> nat" where
  "b64_char n = b64_alphabet ! n"

definition b64_value :: "nat \<Rightarrow> nat option" where
  "b64_value c = map_of (zip b64_alphabet [0..<64]) c"

fun b64_sextets :: "nat list \<Rightarrow> nat list" where
  "b64_sextets (a # b # c # rest) =
     [a div 4, a mod 4 * 16 + b div 16, b mod 16 * 4 + c div 64, c mod 64] @ b64_sextets rest"
| "b64_sextets [a, b] = [a div 4, a mod 4 * 16 + b div 16, b mod 16 * 4]"
| "b64_sextets [a] = [a div 4, a mod 4 * 16]"
| "b64_sextets [] = []"

definition b64_padding :: "nat list \<Rightarrow> nat list" where
  "b64_padding bytes = replicate ((3 - length bytes mod 3) mod 3) 61"

definition forgiving_base64_encode :: "nat list \<Rightarrow> jsstring" where
  "forgiving_base64_encode bytes = map b64_char (b64_sextets bytes) @ b64_padding bytes"

definition btoa :: "jsstring \<Rightarrow> jsstring option" where
  "btoa s = (if list_ex (\<lambda>c. 255 < c) s then None else Some (forgiving_base64_encode s))"

definition ascii_whitespace :: "nat \<Rightarrow> bool" where
  "ascii_whitespace c = (c = 9 \<or> c = 10 \<or> c = 12 \<or> c = 13 \<or> c = 32)"

definition strip_padding :: "jsstring \<Rightarrow> jsstring" where
  "strip_padding d =
     (if 2 \<le> length d \<and> last d = 61 \<and> last (butlast d) = 61 then butlast (butlast d)
      else if d \<noteq> [] \<and> last d = 61 then butlast d
      else d)"

fun b64_bytes :: "nat list \<Rightarrow> nat list" where
  "b64_bytes (s0 # s1 # s2 # s3 # rest) =
     [s0 * 4 + s1 div 16, s1 mod 16 * 16 + s2 div 4, s2 mod 4 * 64 + s3] @ b64_bytes rest"
| "b64_bytes [s0, s1, s2] = [s0 * 4 + s1 div 16, s1 mod 16 * 16 + s2 div 4]"
| "b64_bytes [s0, s1] = [s0 * 4 + s1 div 16]"
| "b64_bytes _ = []"

definition forgiving_base64_decode :: "jsstring \<Rightarrow> nat list option" where
  "forgiving_base64_decode data =
     (let d1 = filter (\<lambda>c. \<not> ascii_whitespace c) data;
          d2 = (if length d1 mod 4 = 0 then strip_padding d1 else d1)
      in if length d2 mod 4 = 1 then None
         else if list_ex (\<lambda>c. b64_value c = None) d2 then None
         else Some (b64_bytes (map (\<lambda>c. the (b64_value c)) d2)))"

definition atob :: "jsstring \<Rightarrow> jsstring option" where
  "atob data = forgiving_base64_decode data"

text \<open>
  \<^verbatim>\<open>
  export function base64ToUint8Array(base64Str) {
    const binaryStr = atob(base64Str);
    const len = binaryStr.length;
    const bytes = new Uint8Array(len);
    for (let i = 0; i < len; i++) { bytes[i] = binaryStr.charCodeAt(i); }
    return bytes;
  }
  \<close>
  A store into a \<^verbatim>\<open>Uint8Array\<close> keeps the value modulo 256.
\<close>

definition base64ToUint8Array :: "jsstring \<Rightarrow> uint8array option" where
  "base64ToUint8Array base64Str =
     (case atob base64Str of
        None \<Rightarrow> None
      | Some binaryStr \<Rightarrow> Some (map (\<lambda>code. word_of_nat code) binaryStr))"

text \<open>
  \<^verbatim>\<open>
  export function uint8ArrayToBase64(uint8Array) {
    let binary = '';
    const len = uint8Array.byteLength;
    for (let i = 0; i < len; i++) { binary += String.fromCharCode(uint8Array[i]); }
    return window.btoa(binary);
  }
  \<close>
\<close>

definition uint8ArrayToBase64 :: "uint8array \<Rightarrow> jsstring option" where
  "uint8ArrayToBase64 a = btoa (foldl (\<lambda>binary b. binary @ [unat b]) [] a)"


section \<open>JavaScript values\<close>

text \<open>
  Values as the serializer and the channel manager see them. An object carries its class
  (for \<^verbatim>\<open>instanceof\<close>) and its own properties, in insertion order, with unique names.
  Functions are not values of the model. Property names are Latin-1 strings.
\<close>

datatype jsclass =
    PlainObject | ErrorClass | PromiseClass
  | JsonRpcError | ParseError | InvalidRequestError | MethodNotFoundError | InvalidParamsError

datatype jsval =
    VUndefined | VNull | VBool bool | VNum jsnum | VStr jsstring
  | VArray "jsval list" | VObject jsclass "(string \<times> jsval) list"

text \<open>
  What the sources throw, one constructor for each \<^verbatim>\<open>throw\<close> (with the values its
  message interpolates, as the template literal renders them) and for each source of a
  run-time error.
\<close>

datatype js_error =
    ChipNotFound string
  | TypeError
  | RpcFailed
  | BlockSizeFailed
  | DataLengthError nat jsnum
  | ReadBlockFailed nat
  | WriteBlockFailed nat
  | RpcErrorResponse nat string
  | RpcTimeout nat
  | HandlerError
  | InvalidCharacterError

text \<open>
  \<^verbatim>\<open>
  var isString = function(obj) { return typeof(obj) === 'string' }
  var isNumber = function(obj) { return typeof(obj) === 'number' }
  var isObject = function(obj) { return typeof(obj) === 'object' }
  var isNull   = function(obj) { return obj === null }
  \<close>
  \<^verbatim>\<open>typeof null\<close> and \<^verbatim>\<open>typeof []\<close> are \<^verbatim>\<open>'object'\<close>.
\<close>

definition isString :: "jsval \<Rightarrow> bool" where
  "isString obj = (case obj of VStr _ \<Rightarrow> True | _ \<Rightarrow> False)"

definition isNumber :: "jsval \<Rightarrow> bool" where
  "isNumber obj = (case obj of VNum _ \<Rightarrow> True | _ \<Rightarrow> False)"

definition isObject :: "jsval \<Rightarrow> bool" where
  "isObject obj = (case obj of VNull \<Rightarrow> True | VArray _ \<Rightarrow> True | VObject _ _ \<Rightarrow> True | _ \<Rightarrow> False)"

definition isNull :: "jsval \<Rightarrow> bool" where
  "isNull obj = (obj = VNull)"

text \<open>Truthiness, as \<^verbatim>\<open>if (x)\<close>, \<^verbatim>\<open>!x\<close> and \<^verbatim>\<open>x && y\<close> test it.\<close>

definition truthy :: "jsval \<Rightarrow> bool" where
  "truthy v =
     (case v of
        VUndefined \<Rightarrow> False
      | VNull \<Rightarrow> False
      | VBool b \<Rightarrow> b
      | VNum x \<Rightarrow> x \<noteq> Num 0 \<and> x \<noteq> NaN
      | VStr s \<Rightarrow> s \<noteq> []
      | VArray _ \<Rightarrow> True
      | VObject _ _ \<Rightarrow> True)"

text \<open>
  \<^verbatim>\<open>x instanceof jsonrpc.err.JsonRpcError\<close>: the four other error classes of
  \<^verbatim>\<open>exceptions.js\<close> inherit from \<^verbatim>\<open>JsonRpcError\<close>, which inherits from \<^verbatim>\<open>Error\<close>.
\<close>

definition subclass_of_JsonRpcError :: "jsclass \<Rightarrow> bool" where
  "subclass_of_JsonRpcError c =
     (c = JsonRpcError \<or> c = ParseError \<or> c = InvalidRequestError
      \<or> c = MethodNotFoundError \<or> c = InvalidParamsError)"

definition instanceof_JsonRpcError :: "jsval \<Rightarrow> bool" where
  "instanceof_JsonRpcError v = (case v of VObject c _ \<Rightarrow> subclass_of_JsonRpcError c | _ \<Rightarrow> False)"

text \<open>
  Reading a property \<^verbatim>\<open>v.k\<close> of a value that is neither \<^verbatim>\<open>null\<close> nor
  \<^verbatim>\<open>undefined\<close> (there the source raises a \<^verbatim>\<open>TypeError\<close>, which the callers below
  write out). An own property wins; otherwise the prototype chain answers:
  \<^verbatim>\<open>Error.prototype\<close> defines \<^verbatim>\<open>message\<close> (the empty string) and \<^verbatim>\<open>name\<close>. The lookup
  is exact for the data properties the sources read: \<^verbatim>\<open>jsonrpc\<close>, \<^verbatim>\<open>id\<close>, \<^verbatim>\<open>method\<close>,
  \<^verbatim>\<open>params\<close>, \<^verbatim>\<open>result\<close>, \<^verbatim>\<open>error\<close>, \<^verbatim>\<open>code\<close>, \<^verbatim>\<open>message\<close>, \<^verbatim>\<open>type\<close>, \<^verbatim>\<open>payload\<close>.
\<close>

definition is_error_class :: "jsclass \<Rightarrow> bool" where
  "is_error_class c = (c = ErrorClass \<or> subclass_of_JsonRpcError c)"

definition proto_prop :: "jsclass \<Rightarrow> string \<Rightarrow> jsval" where
  "proto_prop c k =
     (if is_error_class c \<and> k = ''message'' then VStr []
      else if is_error_class c \<and> k = ''name'' then VStr (js_str ''Error'')
      else VUndefined)"

definition get_prop :: "jsval \<Rightarrow> string \<Rightarrow> jsval" where
  "get_prop v k =
     (case v of
        VObject c fields \<Rightarrow> (case map_of fields k of Some x \<Rightarrow> x | None \<Rightarrow> proto_prop c k)
      | _ \<Rightarrow> VUndefined)"

text \<open>
  \<^verbatim>\<open>obj.hasOwnProperty(k)\<close>: an own property named \<^verbatim>\<open>hasOwnProperty\<close> shadows the
  method of \<^verbatim>\<open>Object.prototype\<close>; as no value of the model is a function, calling it
  raises a \<^verbatim>\<open>TypeError\<close>.
\<close>

definition call_hasOwnProperty :: "jsval \<Rightarrow> string \<Rightarrow> js_error + bool" where
  "call_hasOwnProperty obj k =
     (case obj of
        VObject c fields \<Rightarrow>
          (case map_of fields ''hasOwnProperty'' of
             Some _ \<Rightarrow> Inl TypeError
           | None \<Rightarrow> Inr (map_of fields k \<noteq> None))
      | _ \<Rightarrow> Inr False)"

text \<open>
  \<^verbatim>\<open>x % 1 !== 0\<close>. The sources evaluate it on numbers only (behind \<^verbatim>\<open>isNumber(x) &&\<close>);
  the conversion of other values to numbers is not modelled.
\<close>

definition rem1_nonzero :: "jsval \<Rightarrow> bool" where
  "rem1_nonzero v = (case v of VNum x \<Rightarrow> js_nonzero (js_rem x (Num 1)) | _ \<Rightarrow> True)"

text \<open>
  A template literal \<^verbatim>\<open>`${v}`\<close> renders an object without a \<^verbatim>\<open>toString\<close> of its own
  through \<^verbatim>\<open>Object.prototype.toString\<close>. Only objects are rendered by the sources
  modelled here (the payload of an envelope).
\<close>

definition template_object :: "jsval \<Rightarrow> string" where
  "template_object v = ''[object Object]''"

section \<open>The error classes of \<^verbatim>\<open>exceptions.js\<close>\<close>

text \<open>
  \<^verbatim>\<open>
  function JsonRpcError(msg) {
    this.name = 'JsonRpcError'; this.code = -32603; this.message = msg;
    this.data = Array.prototype.slice.call(arguments, 1);
  }
  function ParseError() {
    JsonRpcError.call(this, 'Unable to parse payload as a JSON.');
    this.name = 'ParseError'; this.code = -32700;
    this.data = Array.prototype.slice.call(arguments);
  }
  function InvalidRequestError() {
    JsonRpcError.call(this, 'The request object is not a valid JSON-RPC 2.0 object.');
    this.name = 'InvalidRequestError'; this.code = -32600;
    this.data = Array.prototype.slice.call(arguments);
  }
  \<close>
\<close>

definition new_JsonRpcError :: "jsval \<Rightarrow> jsval list \<Rightarrow> jsval" where
  "new_JsonRpcError msg rest =
     VObject JsonRpcError
       [(''name'', VStr (js_str ''JsonRpcError'')), (''code'', VNum (Num (- 32603))),
        (''message'', msg), (''data'', VArray rest)]"

definition new_ParseError :: "jsval list \<Rightarrow> jsval" where
  "new_ParseError args =
     VObject ParseError
       [(''name'', VStr (js_str ''ParseError'')), (''code'', VNum (Num (- 32700))),
        (''message'', VStr (js_str ''Unable to parse payload as a JSON.'')),
        (''data'', VArray args)]"

definition new_InvalidRequestError :: "jsval list \<Rightarrow> jsval" where
  "new_InvalidRequestError args =
     VObject InvalidRequestError
       [(''name'', VStr (js_str ''InvalidRequestError'')), (''code'', VNum (Num (- 32600))),
        (''message'', VStr (js_str ''The request object is not a valid JSON-RPC 2.0 object.'')),
        (''data'', VArray args)]"

section \<open>The envelope codec of \<^verbatim>\<open>serializer.js\<close>\<close>

text \<open>
  \<^verbatim>\<open>jsonrpc.errorHandler\<close> is \<^verbatim>\<open>null\<close> or a function of the caller's; the model keeps
  of such a function only whether it returns or throws.
\<close>

datatype hook_outcome = HookReturns | HookThrows

type_synonym error_handler = "(jsval \<Rightarrow> hook_outcome) option"

text \<open>\<^verbatim>\<open>if (this.errorHandler) { this.errorHandler(x) }\<close>\<close>

definition run_errorHandler :: "error_handler \<Rightarrow> jsval \<Rightarrow> js_error + unit" where
  "run_errorHandler h x =
     (case h of
        None \<Rightarrow> Inr ()
      | Some f \<Rightarrow> (case f x of HookReturns \<Rightarrow> Inr () | HookThrows \<Rightarrow> Inl HandlerError))"

text \<open>
  \<^verbatim>\<open>
  function checkErrorId(id) {
    if (!isNull(id) && !isString(id) && (!isNumber(id) || (isNumber(id) && id % 1 !== 0))) {
      errors.push('An ID must be provided. It must be either a string or an integer (no fractions allowed)')
    }
  }
  \<close>
  \<^verbatim>\<open>checkId\<close> is the same without the \<^verbatim>\<open>isNull\<close> test. The functions push onto the list
  \<^verbatim>\<open>errors\<close> of the enclosing call; here they take it and return it.
\<close>

definition checkId :: "jsval \<Rightarrow> string list \<Rightarrow> string list" where
  "checkId ident errors =
     (if \<not> isString ident \<and> (\<not> isNumber ident \<or> (isNumber ident \<and> rem1_nonzero ident))
      then errors @ [''An ID must be provided. It must be either a string or an integer (no fractions allowed)'']
      else errors)"

definition checkErrorId :: "jsval \<Rightarrow> string list \<Rightarrow> string list" where
  "checkErrorId ident errors =
     (if \<not> isNull ident \<and> \<not> isString ident
         \<and> (\<not> isNumber ident \<or> (isNumber ident \<and> rem1_nonzero ident))
      then errors @ [''An ID must be provided. It must be either a string or an integer (no fractions allowed)'']
      else errors)"

text \<open>
  \<^verbatim>\<open>
  function checkMethod(method) {
    if (!isString(data.method)) {
      errors.push('Method should be a string. Received ' + typeof data.method + ' instead')
    }
  }
  function checkResult(result) {
    if (undefined === result) { errors.push('Result must exist for success Response objects') }
  }
  \<close>
\<close>

definition js_typeof :: "jsval \<Rightarrow> string" where
  "js_typeof v =
     (case v of
        VUndefined \<Rightarrow> ''undefined''
      | VNull \<Rightarrow> ''object''
      | VBool _ \<Rightarrow> ''boolean''
      | VNum _ \<Rightarrow> ''number''
      | VStr _ \<Rightarrow> ''string''
      | VArray _ \<Rightarrow> ''object''
      | VObject _ _ \<Rightarrow> ''object'')"

definition checkMethod :: "jsval \<Rightarrow> string list \<Rightarrow> string list" where
  "checkMethod data errors =
     (if \<not> isString (get_prop data ''method'')
      then errors @ [''Method should be a string. Received '' @ js_typeof (get_prop data ''method'') @ '' instead'']
      else errors)"

definition checkResult :: "jsval \<Rightarrow> string list \<Rightarrow> string list" where
  "checkResult result errors =
     (if result = VUndefined then errors @ [''Result must exist for success Response objects'']
      else errors)"

text \<open>
  \<^verbatim>\<open>
  function checkError(error) {
    if (!isObject(error)) {
      errors.push('Error must be an object conforming to the JSON-RPC 2.0 error object specs')
      return
    }
    if (!(error instanceof jsonrpc.err.JsonRpcError)) {
      errors.push('Error must be an instance of JsonRpcError, or any derivatives of it')
      return
    }
    var code    = error.code
    var message = error.message
    if (!isNumber(code) && (isNumber(code) && code % 1 !== 0)) {
      errors.push('Invalid error code. It MUST be an integer.')
    }
    if (!isString(message)) {
      errors.push('Message must exist or must be a string.')
    }
  }
  \<close>
  An instance of \<^verbatim>\<open>JsonRpcError\<close> is an object other than \<^verbatim>\<open>null\<close>, so reading its
  properties raises nothing.
\<close>

definition checkError :: "jsval \<Rightarrow> string list \<Rightarrow> string list" where
  "checkError error errors =
     (if \<not> isObject error
      then errors @ [''Error must be an object conforming to the JSON-RPC 2.0 error object specs'']
      else if \<not> instanceof_JsonRpcError error
      then errors @ [''Error must be an instance of JsonRpcError, or any derivatives of it'']
      else
        (let code = get_prop error ''code'';
             message = get_prop error ''message'';
             errors1 = (if \<not> isNumber code \<and> (isNumber code \<and> rem1_nonzero code)
                        then errors @ [''Invalid error code. It MUST be an integer.'']
                        else errors)
         in if \<not> isString message
            then errors1 @ [''Message must exist or must be a string.'']
            else errors1))"

text \<open>
  \<^verbatim>\<open>
  function _validateMessageStructure(type, data) {
    var errors = []
    ...
    switch (type) {
      case 'request' :      checkId(data.id); checkMethod(data.method); break
      case 'notification' : checkMethod(data.method); break
      case 'success' :      checkId(data.id); checkResult(data.result); break
      case 'error' :        checkErrorId(data.id); checkError(data.error); break
    }
    return (errors.length > 0) ? errors : null
  }
  \<close>
  \<open>None\<close> is the \<^verbatim>\<open>null\<close> of a valid message.
\<close>

definition validateMessageStructure :: "string \<Rightarrow> jsval \<Rightarrow> string list option" where
  "validateMessageStructure type data =
     (let errors =
        (if type = ''request'' then checkMethod data (checkId (get_prop data ''id'') [])
         else if type = ''notification'' then checkMethod data []
         else if type = ''success''
         then checkResult (get_prop data ''result'') (checkId (get_prop data ''id'') [])
         else if type = ''error''
         then checkError (get_prop data ''error'') (checkErrorId (get_prop data ''id'') [])
         else [])
      in if 0 < length errors then Some errors else None)"

text \<open>
  \<^verbatim>\<open>
  error : function (id, errdata) {
    var errors = _validateMessageStructure('error', { id : id, error : errdata })
    if (errors) {
      if (this.errorHandler) { this.errorHandler(errors) }
      return errors
    }
    return JSON.stringify(this.errorObject(id, errdata))
  },
  errorObject : function (id, errdata) {
    var error = { jsonrpc : '2.0', id : id, error : errdata }
    return error
  },
  \<close>
  The text that \<^verbatim>\<open>JSON.stringify\<close> returns is represented by the object it serialises.
\<close>

datatype construct_result = ValidationErrors "string list" | Serialized jsval

definition errorObject :: "jsval \<Rightarrow> jsval \<Rightarrow> jsval" where
  "errorObject ident errdata =
     VObject PlainObject [(''jsonrpc'', VStr (js_str ''2.0'')), (''id'', ident), (''error'', errdata)]"

definition jsonrpc_error :: "error_handler \<Rightarrow> jsval \<Rightarrow> jsval \<Rightarrow> js_error + construct_result" where
  "jsonrpc_error h ident errdata =
     (case validateMessageStructure ''error''
             (VObject PlainObject [(''id'', ident), (''error'', errdata)]) of
        Some errors \<Rightarrow>
          (case run_errorHandler h (VArray (map (\<lambda>e. VStr (js_str e)) errors)) of
             Inl e \<Rightarrow> Inl e
           | Inr _ \<Rightarrow> Inr (ValidationErrors errors))
      | None \<Rightarrow> Inr (Serialized (errorObject ident errdata)))"

text \<open>
  \<^verbatim>\<open>
  deserializeObject : function (obj) {
    if (obj.jsonrpc !== '2.0') {
      if (this.errorHandler) { this.errorHandler(obj) }
      return new jsonrpc.err.InvalidRequestError(obj)
    }
    if (obj.id === void 0) {
      return { type : 'notification', payload : { method : obj.method, params : obj.params } }
    }
    if (isString(obj.method)) {
      return { type : 'request', payload : { id : obj.id, method : obj.method, params : obj.params } }
    }
    if (obj.hasOwnProperty('result')) {
      return { type : 'success', payload : { id : obj.id, result : obj.result } }
    }
    if (obj.error) {
      return { type : 'error', payload : { id : obj.id, error : obj.error } }
    }
    if (this.errorHandler) { this.errorHandler(obj) }
    return new jsonrpc.err.InvalidRequestError(obj)
  }
  \<close>
  Reading \<^verbatim>\<open>obj.jsonrpc\<close> of \<^verbatim>\<open>null\<close> raises a \<^verbatim>\<open>TypeError\<close>.
\<close>

definition envelope :: "string \<Rightarrow> (string \<times> jsval) list \<Rightarrow> jsval" where
  "envelope type payload =
     VObject PlainObject [(''type'', VStr (js_str type)), (''payload'', VObject PlainObject payload)]"

definition deserializeObject :: "error_handler \<Rightarrow> jsval \<Rightarrow> js_error + jsval" where
  "deserializeObject h obj =
     (if obj = VNull \<or> obj = VUndefined then Inl TypeError
      else if get_prop obj ''jsonrpc'' \<noteq> VStr (js_str ''2.0'')
      then (case run_errorHandler h obj of
              Inl e \<Rightarrow> Inl e
            | Inr _ \<Rightarrow> Inr (new_InvalidRequestError [obj]))
      else if get_prop obj ''id'' = VUndefined
      then Inr (envelope ''notification''
                  [(''method'', get_prop obj ''method''), (''params'', get_prop obj ''params'')])
      else if isString (get_prop obj ''method'')
      then Inr (envelope ''request''
                  [(''id'', get_prop obj ''id''), (''method'', get_prop obj ''method''),
                   (''params'', get_prop obj ''params'')])
      else
        (case call_hasOwnProperty obj ''result'' of
           Inl e \<Rightarrow> Inl e
         | Inr True \<Rightarrow>
             Inr (envelope ''success''
                    [(''id'', get_prop obj ''id''), (''result'', get_prop obj ''result'')])
         | Inr False \<Rightarrow>
             if truthy (get_prop obj ''error'')
             then Inr (envelope ''error''
                         [(''id'', get_prop obj ''id''), (''error'', get_prop obj ''error'')])
             else (case run_errorHandler h obj of
                     Inl e \<Rightarrow> Inl e
                   | Inr _ \<Rightarrow> Inr (new_InvalidRequestError [obj]))))"

text \<open>
  \<^verbatim>\<open>
  deserialize : function (msg) {
    var obj = null
    try { obj = JSON.parse(msg) }
    catch(err) {
      if (this.errorHandler) { this.errorHandler(msg) }
      return new jsonrpc.err.ParseError(msg)
    }
    return this.deserializeObject(obj)
  },
  \<close>
  \<^verbatim>\<open>JSON.parse\<close> is a parameter: a function from the text to the parsed value, \<open>None\<close>
  where it throws.
\<close>

type_synonym json_parse = "jsstring \<Rightarrow> jsval option"

definition deserialize :: "json_parse \<Rightarrow> error_handler \<Rightarrow> jsstring \<Rightarrow> js_error + jsval" where
  "deserialize parse h msg =
     (case parse msg of
        None \<Rightarrow>
          (case run_errorHandler h (VStr msg) of
             Inl e \<Rightarrow> Inl e
           | Inr _ \<Rightarrow> Inr (new_ParseError [VStr msg]))
      | Some obj \<Rightarrow> deserializeObject h obj)"

section \<open>The channel manager of \<^verbatim>\<open>ws_manager.js\<close>\<close>

text \<open>
  The listener that \<^verbatim>\<open>connectToWS\<close> attaches to the socket:
  \<^verbatim>\<open>
  ws.addEventListener('message', (event) => {
    const response = jsonrpc.deserialize(event.data);
    receiveBuffer.push(response);
    if (receiveBuffer.length > 64) {
      receiveBuffer.shift(); // Maintain buffer size
    }
  });
  \<close>
  It takes the buffer and returns it. When \<^verbatim>\<open>deserialize\<close> throws, the listener ends
  there and the buffer is as it was.
\<close>

definition on_message :: "json_parse \<Rightarrow> error_handler \<Rightarrow> jsval list \<Rightarrow> jsstring \<Rightarrow> jsval list" where
  "on_message parse h receiveBuffer data =
     (case deserialize parse h data of
        Inl _ \<Rightarrow> receiveBuffer
      | Inr response \<Rightarrow>
          (let pushed = receiveBuffer @ [response]
           in if 64 < length pushed then tl pushed else pushed))"

text \<open>The buffer after a sequence of inbound messages, starting from the empty one.\<close>

definition receive_all :: "json_parse \<Rightarrow> error_handler \<Rightarrow> jsstring list \<Rightarrow> jsval list" where
  "receive_all parse h msgs = foldl (on_message parse h) [] msgs"

text \<open>
  \<^verbatim>\<open>
  export async function getRPCResponse(id, debug = false) {
    const startTime = Date.now();
    while (Date.now() - startTime < 40000) { // Stop after 40 seconds
      const response = receiveBuffer.find(resp => resp.payload && resp.payload.id === id);
      if (response) {
        if (response.type === 'error') {
          throw new Error(`RPC error response for id ${id}: ${response.payload}`);
        }
        return response;
      }
      await new Promise(resolve => setTimeout(resolve, 100));
    }
    throw new Error(`Timeout waiting for RPC response with id ${id}`);
  }
  \<close>
  The id is the counter value that \<^verbatim>\<open>RPCCall\<close> returned, a natural number. While the
  function sleeps, the listener above changes the buffer: the environment gives the
  buffer as the \<open>k\<close>-th poll finds it, and the number of milliseconds by which the
  \<open>k\<close>-th timer fires late. Time is in milliseconds since \<^verbatim>\<open>startTime\<close>. The result comes
  with the number of sleeps and the time elapsed.
\<close>

record poll_env =
  buffer_at :: "nat \<Rightarrow> jsval list"
  late :: "nat \<Rightarrow> nat"

definition matches_id :: "nat \<Rightarrow> jsval \<Rightarrow> bool" where
  "matches_id ident resp =
     (truthy (get_prop resp ''payload'')
      \<and> get_prop (get_prop resp ''payload'') ''id'' = VNum (js_nat ident))"

function getRPCResponse_poll ::
  "poll_env \<Rightarrow> nat \<Rightarrow> nat \<Rightarrow> nat \<Rightarrow> (js_error + jsval) \<times> nat \<times> nat" where
  "getRPCResponse_poll env ident k elapsed =
     (if elapsed < 40000 then
        (case find (matches_id ident) (buffer_at env k) of
           Some response \<Rightarrow>
             if get_prop response ''type'' = VStr (js_str ''error'')
             then (Inl (RpcErrorResponse ident (template_object (get_prop response ''payload''))),
                   k, elapsed)
             else (Inr response, k, elapsed)
         | None \<Rightarrow> getRPCResponse_poll env ident (Suc k) (elapsed + 100 + late env k))
      else (Inl (RpcTimeout ident), k, elapsed))"
  by pat_completeness auto
termination
  by (relation "measure (\<lambda>(env, ident, k, elapsed). 40000 - elapsed)") auto

definition getRPCResponse :: "poll_env \<Rightarrow> nat \<Rightarrow> (js_error + jsval) \<times> nat \<times> nat" where
  "getRPCResponse env ident = getRPCResponse_poll env ident 0 0"

text \<open>
  Two error responses to call 1, as \<^verbatim>\<open>deserialize\<close> builds them; the environment in
  which the buffer holds one given entry throughout, and the one in which it stays empty.
  In both every timer fires on time.
\<close>

definition method_not_found_response :: jsval where
  "method_not_found_response =
     envelope ''error''
       [(''id'', VNum (js_nat 1)),
        (''error'', VObject PlainObject
           [(''code'', VNum (Num (- 32601))), (''message'', VStr (js_str ''Method not found''))])]"

definition invalid_params_response :: jsval where
  "invalid_params_response =
     envelope ''error''
       [(''id'', VNum (js_nat 1)),
        (''error'', VObject PlainObject
           [(''code'', VNum (Num (- 32602))), (''message'', VStr (js_str ''Invalid params''))])]"

definition holding :: "jsval \<Rightarrow> poll_env" where
  "holding response = \<lparr>buffer_at = (\<lambda>k. [response]), late = (\<lambda>k. 0)\<rparr>"

definition silent :: poll_env where
  "silent = \<lparr>buffer_at = (\<lambda>k. []), late = (\<lambda>k. 0)\<rparr>"

section \<open>The chip catalog and the device\<close>

text \<open>An entry of \<^verbatim>\<open>knows_chips.json\<close>, with the fields the block protocol reads.\<close>

record chip =
  model :: string
  capacity :: nat
  page_size :: nat

text \<open>\<^verbatim>\<open>data.parts.find(part => part.model === chipName)\<close>\<close>

definition find_chip :: "chip list \<Rightarrow> string \<Rightarrow> chip option" where
  "find_chip parts chipName = find (\<lambda>part. model part = chipName) parts"

text \<open>
  The calls that \<^verbatim>\<open>programmer.js\<close> makes, with their parameters. The page size of a write
  is \<open>None\<close> when the parameter object has no \<^verbatim>\<open>chip_page_size\<close>.
\<close>

datatype rpc_request =
    get_transmit_packet_size
  | get_receive_packet_size
  | get_read_block_size
  | get_write_block_size
  | programmer_read_block nat bool
  | programmer_write_block nat "nat option" jsstring nat
  | programmer_start_erase_chip
  | programmer_erase_done

text \<open>
  Every call of \<^verbatim>\<open>programmer.js\<close> is the sequence
  \<^verbatim>\<open>const id = await RPCCall(m, p); const response = await getRPCResponse(id);\<close>
  followed by a read of \<^verbatim>\<open>response.payload.result\<close>. The device and the channel below it
  are a state machine that answers such a call: \<open>None\<close> (or \<open>False\<close>) when
  \<^verbatim>\<open>RPCCall\<close> or \<^verbatim>\<open>getRPCResponse\<close> throws, the result otherwise. The result has the
  type that the method fixes: a byte count, a base64 text, a flag.
\<close>

record 'd device =
  size_reply :: "rpc_request \<Rightarrow> 'd \<Rightarrow> nat option \<times> 'd"
  data_reply :: "rpc_request \<Rightarrow> 'd \<Rightarrow> jsstring option \<times> 'd"
  ack_reply :: "rpc_request \<Rightarrow> 'd \<Rightarrow> bool \<times> 'd"
  flag_reply :: "rpc_request \<Rightarrow> 'd \<Rightarrow> bool option \<times> 'd"

text \<open>The world: the calls made so far, oldest first, and the state of the device.\<close>

record 'd world =
  calls :: "rpc_request list"
  dev_state :: 'd

definition rpc_size :: "'d device \<Rightarrow> rpc_request \<Rightarrow> 'd world \<Rightarrow> nat option \<times> 'd world" where
  "rpc_size dev req w =
     (case size_reply dev req (dev_state w) of
        (r, d) \<Rightarrow> (r, \<lparr>calls = calls w @ [req], dev_state = d\<rparr>))"

definition rpc_data :: "'d device \<Rightarrow> rpc_request \<Rightarrow> 'd world \<Rightarrow> jsstring option \<times> 'd world" where
  "rpc_data dev req w =
     (case data_reply dev req (dev_state w) of
        (r, d) \<Rightarrow> (r, \<lparr>calls = calls w @ [req], dev_state = d\<rparr>))"

definition rpc_ack :: "'d device \<Rightarrow> rpc_request \<Rightarrow> 'd world \<Rightarrow> bool \<times> 'd world" where
  "rpc_ack dev req w =
     (case ack_reply dev req (dev_state w) of
        (r, d) \<Rightarrow> (r, \<lparr>calls = calls w @ [req], dev_state = d\<rparr>))"

definition rpc_flag :: "'d device \<Rightarrow> rpc_request \<Rightarrow> 'd world \<Rightarrow> bool option \<times> 'd world" where
  "rpc_flag dev req w =
     (case flag_reply dev req (dev_state w) of
        (r, d) \<Rightarrow> (r, \<lparr>calls = calls w @ [req], dev_state = d\<rparr>))"

section \<open>Block counts and block sizes of \<^verbatim>\<open>programmer.js\<close>\<close>

text \<open>
  The repository holds two copies of \<^verbatim>\<open>programmer.js\<close>. The first asks the device for
  its packet sizes (\<^verbatim>\<open>get_transmit_packet_size\<close>, \<^verbatim>\<open>get_receive_packet_size\<close>); its
  functions carry the suffix \<open>_pkt\<close> below where the names coincide. The second asks for
  block sizes (\<^verbatim>\<open>get_read_block_size\<close>, \<^verbatim>\<open>get_write_block_size\<close>); suffix \<open>_blk\<close>.

  First copy:
  \<^verbatim>\<open>
  export async function getNumberOfTransmitPackets(chipName, debug = false) {
    const data = await getChipsData(debug);
    const chip = data.parts.find(part => part.model === chipName);
    if (!chip) { throw new Error(`Chip ${chipName} not found.`); }
    const total_size = chip.capacity;
    const id = await RPCCall("get_transmit_packet_size", { }, debug);
    const response = await getRPCResponse(id, debug);
    const blockSize = response.payload.result;
    return total_size / blockSize;
  }
  \<close>
  \<^verbatim>\<open>getNumberOfReceivePackets\<close> is the same with \<^verbatim>\<open>get_receive_packet_size\<close>.
\<close>

definition number_of_packets ::
  "'d device \<Rightarrow> rpc_request \<Rightarrow> chip list \<Rightarrow> string \<Rightarrow> 'd world \<Rightarrow> (js_error + jsnum) \<times> 'd world" where
  "number_of_packets dev query parts chipName w =
     (case find_chip parts chipName of
        None \<Rightarrow> (Inl (ChipNotFound chipName), w)
      | Some chip \<Rightarrow>
          (let total_size = capacity chip
           in case rpc_size dev query w of
                (None, w') \<Rightarrow> (Inl RpcFailed, w')
              | (Some blockSize, w') \<Rightarrow> (Inr (js_div (js_nat total_size) (js_nat blockSize)), w')))"

definition getNumberOfTransmitPackets ::
  "'d device \<Rightarrow> chip list \<Rightarrow> string \<Rightarrow> 'd world \<Rightarrow> (js_error + jsnum) \<times> 'd world" where
  "getNumberOfTransmitPackets dev = number_of_packets dev get_transmit_packet_size"

definition getNumberOfReceivePackets ::
  "'d device \<Rightarrow> chip list \<Rightarrow> string \<Rightarrow> 'd world \<Rightarrow> (js_error + jsnum) \<times> 'd world" where
  "getNumberOfReceivePackets dev = number_of_packets dev get_receive_packet_size"

text \<open>
  Second copy:
  \<^verbatim>\<open>
  export async function getNumberOfBlocksForChip(chipName, for_read, debug = false) {
    const data = await getChipsData(debug);
    const chip = data.parts.find(part => part.model === chipName);
    if (!chip) { throw new Error(`Chip ${chipName} not found.`); }
    const total_size = chip.capacity;
    let id;
    if (for_read) { id = await RPCCall("get_read_block_size", { }, debug); }
    else { id = await RPCCall("get_write_block_size", { }, debug); }
    const response = await getRPCResponse(id, debug);
    const blockSize = response.payload.result;
    return total_size / blockSize;
  }
  \<close>
\<close>

definition getNumberOfBlocksForChip ::
  "'d device \<Rightarrow> chip list \<Rightarrow> string \<Rightarrow> bool \<Rightarrow> 'd world \<Rightarrow> (js_error + jsnum) \<times> 'd world" where
  "getNumberOfBlocksForChip dev parts chipName for_read w =
     (case find_chip parts chipName of
        None \<Rightarrow> (Inl (ChipNotFound chipName), w)
      | Some chip \<Rightarrow>
          (let total_size = capacity chip
           in case rpc_size dev (if for_read then get_read_block_size else get_write_block_size) w of
                (None, w') \<Rightarrow> (Inl RpcFailed, w')
              | (Some blockSize, w') \<Rightarrow> (Inr (js_div (js_nat total_size) (js_nat blockSize)), w')))"

text \<open>
  \<^verbatim>\<open>
  export async function getBlockSize(for_read ,debug = false) {
    try {
      let rpcIdBlockSize;
      if (for_read) { rpcIdBlockSize = await RPCCall("get_read_block_size", {}, debug); }
      else { rpcIdBlockSize = await RPCCall("get_write_block_size", {}, debug); }
      const respBlockSize = await getRPCResponse(rpcIdBlockSize, debug);
      const blockSize = Number(respBlockSize.payload.result);
      return blockSize;
    } catch (error) {
      throw new Error(`Failed to retrieve block size: ${error.message}`);
    }
  }
  \<close>
\<close>

definition getBlockSize :: "'d device \<Rightarrow> bool \<Rightarrow> 'd world \<Rightarrow> (js_error + jsnum) \<times> 'd world" where
  "getBlockSize dev for_read w =
     (case rpc_size dev (if for_read then get_read_block_size else get_write_block_size) w of
        (None, w') \<Rightarrow> (Inl BlockSizeFailed, w')
      | (Some blockSize, w') \<Rightarrow> (Inr (js_nat blockSize), w'))"

section \<open>Async generators\<close>

text \<open>
  An async generator is a state and a function \<open>next\<close>: each call runs the body up to its
  next \<^verbatim>\<open>yield\<close>, \<^verbatim>\<open>throw\<close> or end. A generator that has thrown or ended is closed:
  every later call returns \<^verbatim>\<open>{done: true}\<close> and runs no code of the body.
\<close>

datatype 'a gen_event = Yield 'a | Throw js_error | Return

text \<open>
  \<^verbatim>\<open>for await (const x of gen) { ... }\<close> pulls until the generator throws or ends; \<open>drive\<close>
  is such a consumer that gives up after \<open>k\<close> pulls.
\<close>

fun drive ::
  "('g \<Rightarrow> 'w \<Rightarrow> 'a gen_event \<times> 'g \<times> 'w) \<Rightarrow> nat \<Rightarrow> 'g \<Rightarrow> 'w \<Rightarrow> 'a gen_event list \<times> 'g \<times> 'w" where
  "drive nxt 0 g w = ([], g, w)"
| "drive nxt (Suc k) g w =
     (case nxt g w of
        (Yield x, g', w') \<Rightarrow> (case drive nxt k g' w' of (evs, g'', w'') \<Rightarrow> (Yield x # evs, g'', w''))
      | (Throw e, g', w') \<Rightarrow> ([Throw e], g', w')
      | (Return, g', w') \<Rightarrow> ([Return], g', w'))"

section \<open>Reading a chip: \<^verbatim>\<open>readChipBlocks\<close>\<close>

text \<open>
  Both copies of \<^verbatim>\<open>programmer.js\<close> have the same loop:
  \<^verbatim>\<open>
  for (let i = 0; i < num_blocks; i++) {
    let valid = false;
    let blockData;
    let attempts = 0;
    while (!valid && attempts < 3) {
      attempts++;
      try {
        const rpcId = await RPCCall("programmer_read_block", { block_id: i, append_crc: append_crc }, debug);
        const resp = await getRPCResponse(rpcId, debug);
        blockData = base64ToUint8Array(resp.payload.result);
      } catch (error) {
        continue;
      }
      if (append_crc) {
        const crc = blockData[blockData.length - 1];
        const sum = blockData.slice(0, -1).reduce((a, b) => a + b, 0) % 256;
        if (crc === sum) { valid = true; }
      } else {
        valid = true;
      }
    }
    if (!valid) {
      throw new Error(`Failed to read block ${i} after 3 attempts.`);
    }
    yield append_crc ? blockData.slice(0, -1) : blockData;
  }
  \<close>
  \<open>read_attempt\<close> is the body of the \<^verbatim>\<open>while\<close> loop after \<^verbatim>\<open>attempts++\<close>: it returns the new
  values of \<^verbatim>\<open>valid\<close> and \<^verbatim>\<open>blockData\<close>. The body runs only while \<^verbatim>\<open>valid\<close> is false.
\<close>

definition read_attempt ::
  "'d device \<Rightarrow> nat \<Rightarrow> bool \<Rightarrow> uint8array option \<Rightarrow> 'd world \<Rightarrow> bool \<times> uint8array option \<times> 'd world" where
  "read_attempt dev i append_crc blockData w =
     (case rpc_data dev (programmer_read_block i append_crc) w of
        (None, w') \<Rightarrow> (False, blockData, w')
      | (Some result, w') \<Rightarrow>
          (case base64ToUint8Array result of
             None \<Rightarrow> (False, blockData, w')
           | Some bytes \<Rightarrow>
               if append_crc then (read_crc_valid bytes, Some bytes, w')
               else (True, Some bytes, w')))"



function read_attempts ::
  "'d device \<Rightarrow> nat \<Rightarrow> bool \<Rightarrow> bool \<Rightarrow> uint8array option \<Rightarrow> nat \<Rightarrow> 'd world
   \<Rightarrow> bool \<times> uint8array option \<times> nat \<times> 'd world" where
  "read_attempts dev i append_crc valid blockData attempts w =
     (if \<not> valid \<and> attempts < 3 then
        (case read_attempt dev i append_crc blockData w of
           (valid', blockData', w') \<Rightarrow>
             read_attempts dev i append_crc valid' blockData' (attempts + 1) w')
      else (valid, blockData, attempts, w))"
  by pat_completeness auto
termination
  by (relation "measure (\<lambda>(dev, i, append_crc, valid, blockData, attempts, w). 3 - attempts)") auto

text \<open>
  The state of the generator: not started, at block \<open>i\<close> of \<^verbatim>\<open>num_blocks\<close>, or closed.
\<close>

datatype read_gen = ReadFresh | ReadAt jsnum nat | ReadClosed

text \<open>
  One turn of the \<^verbatim>\<open>for\<close> loop, from its test to the \<^verbatim>\<open>yield\<close>. A valid block has its
  data; \<^verbatim>\<open>blockData.slice\<close> on \<^verbatim>\<open>undefined\<close> would be a \<^verbatim>\<open>TypeError\<close>.
\<close>

definition read_block_step ::
  "'d device \<Rightarrow> bool \<Rightarrow> jsnum \<Rightarrow> nat \<Rightarrow> 'd world \<Rightarrow> uint8array gen_event \<times> read_gen \<times> 'd world" where
  "read_block_step dev append_crc num_blocks i w =
     (if js_less (js_nat i) num_blocks then
        (case read_attempts dev i append_crc False None 0 w of
           (valid, blockData, attempts, w') \<Rightarrow>
             if \<not> valid then (Throw (ReadBlockFailed i), ReadClosed, w')
             else (case blockData of
                     None \<Rightarrow> (Throw TypeError, ReadClosed, w')
                   | Some bytes \<Rightarrow>
                       (Yield (if append_crc then butlast bytes else bytes),
                        ReadAt num_blocks (i + 1), w')))
      else (Return, ReadClosed, w))"

text \<open>
  First copy:
  \<^verbatim>\<open>
  export async function* readChipBlocks(chipName, append_crc = true, debug = false) {
    const num_blocks = await getNumberOfTransmitPackets(chipName, debug);
    for (let i = 0; i < num_blocks; i++) { ... }
  }
  \<close>
\<close>

definition readChipBlocks_pkt ::
  "'d device \<Rightarrow> chip list \<Rightarrow> string \<Rightarrow> bool \<Rightarrow> read_gen \<Rightarrow> 'd world
   \<Rightarrow> uint8array gen_event \<times> read_gen \<times> 'd world" where
  "readChipBlocks_pkt dev parts chipName append_crc g w =
     (case g of
        ReadFresh \<Rightarrow>
          (case getNumberOfTransmitPackets dev parts chipName w of
             (Inl e, w') \<Rightarrow> (Throw e, ReadClosed, w')
           | (Inr num_blocks, w') \<Rightarrow> read_block_step dev append_crc num_blocks 0 w')
      | ReadAt num_blocks i \<Rightarrow> read_block_step dev append_crc num_blocks i w
      | ReadClosed \<Rightarrow> (Return, ReadClosed, w))"

text \<open>
  Second copy:
  \<^verbatim>\<open>
  export async function* readChipBlocks(chipName, append_crc = true, debug = false) {
    const num_blocks = await getNumberOfBlocksForChip(chipName, true, debug);
    for (let i = 0; i < num_blocks; i++) { ... }
  }
  \<close>
\<close>

definition readChipBlocks_blk ::
  "'d device \<Rightarrow> chip list \<Rightarrow> string \<Rightarrow> bool \<Rightarrow> read_gen \<Rightarrow> 'd world
   \<Rightarrow> uint8array gen_event \<times> read_gen \<times> 'd world" where
  "readChipBlocks_blk dev parts chipName append_crc g w =
     (case g of
        ReadFresh \<Rightarrow>
          (case getNumberOfBlocksForChip dev parts chipName True w of
             (Inl e, w') \<Rightarrow> (Throw e, ReadClosed, w')
           | (Inr num_blocks, w') \<Rightarrow> read_block_step dev append_crc num_blocks 0 w')
      | ReadAt num_blocks i \<Rightarrow> read_block_step dev append_crc num_blocks i w
      | ReadClosed \<Rightarrow> (Return, ReadClosed, w))"

section \<open>Writing a chip: \<^verbatim>\<open>writeChipBlocks\<close>\<close>

text \<open>\<^verbatim>\<open>a * b\<close> and \<^verbatim>\<open>a + b\<close> on numbers.\<close>

fun js_mul :: "jsnum \<Rightarrow> jsnum \<Rightarrow> jsnum" where
  "js_mul (Num a) (Num b) = Num (a * b)"
| "js_mul (Num a) PosInfinity = (if a = 0 then NaN else if 0 < a then PosInfinity else NegInfinity)"
| "js_mul (Num a) NegInfinity = (if a = 0 then NaN else if 0 < a then NegInfinity else PosInfinity)"
| "js_mul PosInfinity (Num b) = (if b = 0 then NaN else if 0 < b then PosInfinity else NegInfinity)"
| "js_mul NegInfinity (Num b) = (if b = 0 then NaN else if 0 < b then NegInfinity else PosInfinity)"
| "js_mul PosInfinity PosInfinity = PosInfinity"
| "js_mul PosInfinity NegInfinity = NegInfinity"
| "js_mul NegInfinity PosInfinity = NegInfinity"
| "js_mul NegInfinity NegInfinity = PosInfinity"
| "js_mul _ _ = NaN"

fun js_add :: "jsnum \<Rightarrow> jsnum \<Rightarrow> jsnum" where
  "js_add (Num a) (Num b) = Num (a + b)"
| "js_add (Num a) PosInfinity = PosInfinity"
| "js_add (Num a) NegInfinity = NegInfinity"
| "js_add PosInfinity (Num b) = PosInfinity"
| "js_add NegInfinity (Num b) = NegInfinity"
| "js_add PosInfinity PosInfinity = PosInfinity"
| "js_add NegInfinity NegInfinity = NegInfinity"
| "js_add _ _ = NaN"

text \<open>
  \<^verbatim>\<open>fileData.slice(start, end)\<close> on a \<^verbatim>\<open>Uint8Array\<close>: each bound is truncated to an
  integer (NaN counts as 0), a negative bound counts from the end, and both are clamped
  to the array.
\<close>

definition slice_index :: "jsnum \<Rightarrow> nat \<Rightarrow> nat" where
  "slice_index x len =
     (case x of
        Num q \<Rightarrow>
          (let k = js_trunc q
           in if k < 0 then nat (max (int len + k) 0) else min (nat k) len)
      | PosInfinity \<Rightarrow> len
      | NegInfinity \<Rightarrow> 0
      | NaN \<Rightarrow> 0)"

definition js_slice :: "uint8array \<Rightarrow> jsnum \<Rightarrow> jsnum \<Rightarrow> uint8array" where
  "js_slice xs start end' =
     (let a = slice_index start (length xs);
          b = slice_index end' (length xs)
      in take (b - a) (drop a xs))"

text \<open>
  What the set-up of \<^verbatim>\<open>writeChipBlocks\<close> leaves for its loop: \<^verbatim>\<open>BLOCK_SIZE\<close>,
  \<^verbatim>\<open>numBlocks\<close>, and the page size that goes into every call (\<open>None\<close> in the first copy,
  which sends none).
\<close>

record write_params =
  BLOCK_SIZE :: jsnum
  numBlocks :: jsnum
  pageSize :: "nat option"

datatype write_gen = WriteFresh | WriteAt write_params nat | WriteClosed

text \<open>
  Both copies have the same loop, but for the parameters of the call: the first copy
  sends \<^verbatim>\<open>{ block_id: blockId, data: blockDataB64, crc: crc }\<close>, the second
  \<^verbatim>\<open>
  for (let blockId = 0; blockId < numBlocks; blockId++) {
    const start = blockId * BLOCK_SIZE;
    const end = start + BLOCK_SIZE;
    const blockData = fileData.slice(start, end);
    const blockDataB64 = uint8ArrayToBase64(blockData);
    let attempts = 0;
    let written = false;
    let resp;
    while (!written && attempts < 3) {
      attempts++;
      try {
        const crc = blockData.reduce((a, b) => a + b, 0) % 256;
        const rpcId = await RPCCall("programmer_write_block",
          { block_id: blockId, chip_page_size: pageSize, data: blockDataB64, crc: crc }, debug);
        resp = await getRPCResponse(rpcId, debug);
        written = true;
      } catch (error) { }
    }
    if (!written) {
      throw new Error(`Failed to write block ${blockId} after 3 attempts.`);
    }
    yield blockId;
  }
  \<close>
\<close>

function write_attempts ::
  "'d device \<Rightarrow> rpc_request \<Rightarrow> bool \<Rightarrow> nat \<Rightarrow> 'd world \<Rightarrow> bool \<times> nat \<times> 'd world" where
  "write_attempts dev req written attempts w =
     (if \<not> written \<and> attempts < 3 then
        (case rpc_ack dev req w of
           (written', w') \<Rightarrow> write_attempts dev req written' (attempts + 1) w')
      else (written, attempts, w))"
  by pat_completeness auto
termination
  by (relation "measure (\<lambda>(dev, req, written, attempts, w). 3 - attempts)") auto

definition write_block_step ::
  "'d device \<Rightarrow> uint8array \<Rightarrow> write_params \<Rightarrow> nat \<Rightarrow> 'd world \<Rightarrow> nat gen_event \<times> write_gen \<times> 'd world" where
  "write_block_step dev fileData ps blockId w =
     (if js_less (js_nat blockId) (numBlocks ps) then
        (let start = js_mul (js_nat blockId) (BLOCK_SIZE ps);
             end' = js_add start (BLOCK_SIZE ps);
             blockData = js_slice fileData start end'
         in case uint8ArrayToBase64 blockData of
              None \<Rightarrow> (Throw InvalidCharacterError, WriteClosed, w)
            | Some blockDataB64 \<Rightarrow>
                (let crc = write_crc blockData
                 in case write_attempts dev
                           (programmer_write_block blockId (pageSize ps) blockDataB64 crc) False 0 w of
                      (written, attempts, w') \<Rightarrow>
                        if \<not> written then (Throw (WriteBlockFailed blockId), WriteClosed, w')
                        else (Yield blockId, WriteAt ps (blockId + 1), w')))
      else (Return, WriteClosed, w))"

text \<open>
  First copy (\<^verbatim>\<open>getNumberOfReceivePackets\<close> takes the \<^verbatim>\<open>false\<close> as its \<^verbatim>\<open>debug\<close>):
  \<^verbatim>\<open>
  export async function* writeChipBlocks(chipName, fileData, verify = false, debug = false) {
    console.log(await getChipsData(debug));
    const DATA = await getChipsData(debug);
    const CHIP = DATA.parts.find(part => part.model === chipName);
    const CHIP_SIZE = CHIP.capacity;
    const BLOCK_COUNT = await getNumberOfReceivePackets(chipName, false, debug);
    const BLOCK_SIZE = CHIP_SIZE / BLOCK_COUNT;
    if (fileData.byteLength % BLOCK_SIZE !== 0) {
      throw new Error(`Data length (${fileData.byteLength}) is not a multiple of block size (${BLOCK_SIZE}).`);
    }
    const numBlocks = fileData.byteLength / BLOCK_SIZE;
    for (...) { ... }
  }
  \<close>
\<close>

definition writeChipBlocks_pkt_setup ::
  "'d device \<Rightarrow> chip list \<Rightarrow> string \<Rightarrow> uint8array \<Rightarrow> 'd world \<Rightarrow> (js_error + write_params) \<times> 'd world" where
  "writeChipBlocks_pkt_setup dev parts chipName fileData w =
     (case find_chip parts chipName of
        None \<Rightarrow> (Inl TypeError, w)
      | Some CHIP \<Rightarrow>
          (let CHIP_SIZE = capacity CHIP
           in case getNumberOfReceivePackets dev parts chipName w of
                (Inl e, w') \<Rightarrow> (Inl e, w')
              | (Inr BLOCK_COUNT, w') \<Rightarrow>
                  (let block_size = js_div (js_nat CHIP_SIZE) BLOCK_COUNT
                   in if js_nonzero (js_rem (js_nat (length fileData)) block_size)
                      then (Inl (DataLengthError (length fileData) block_size), w')
                      else (Inr \<lparr>BLOCK_SIZE = block_size,
                                 numBlocks = js_div (js_nat (length fileData)) block_size,
                                 pageSize = None\<rparr>, w'))))"

definition writeChipBlocks_pkt ::
  "'d device \<Rightarrow> chip list \<Rightarrow> string \<Rightarrow> uint8array \<Rightarrow> write_gen \<Rightarrow> 'd world
   \<Rightarrow> nat gen_event \<times> write_gen \<times> 'd world" where
  "writeChipBlocks_pkt dev parts chipName fileData g w =
     (case g of
        WriteFresh \<Rightarrow>
          (case writeChipBlocks_pkt_setup dev parts chipName fileData w of
             (Inl e, w') \<Rightarrow> (Throw e, WriteClosed, w')
           | (Inr ps, w') \<Rightarrow> write_block_step dev fileData ps 0 w')
      | WriteAt ps blockId \<Rightarrow> write_block_step dev fileData ps blockId w
      | WriteClosed \<Rightarrow> (Return, WriteClosed, w))"

text \<open>
  Second copy:
  \<^verbatim>\<open>
  export async function* writeChipBlocks(chipName, fileData, verify = false, debug = false) {
    const BLOCK_SIZE = await getBlockSize(false, debug);
    if (fileData.byteLength % BLOCK_SIZE !== 0) {
      throw new Error(`Data length (${fileData.byteLength}) is not a multiple of block size (${BLOCK_SIZE}).`);
    }
    const numBlocks = fileData.byteLength / BLOCK_SIZE;
    const data = await getChipsData(debug);
    const chip = data.parts.find(part => part.model === chipName);
    const pageSize = chip.page_size
    for (...) { ... }
  }
  \<close>
  Reading \<^verbatim>\<open>chip.page_size\<close> of a chip that is not in the catalog raises a \<^verbatim>\<open>TypeError\<close>.
\<close>

definition writeChipBlocks_blk_setup ::
  "'d device \<Rightarrow> chip list \<Rightarrow> string \<Rightarrow> uint8array \<Rightarrow> 'd world \<Rightarrow> (js_error + write_params) \<times> 'd world" where
  "writeChipBlocks_blk_setup dev parts chipName fileData w =
     (case getBlockSize dev False w of
        (Inl e, w') \<Rightarrow> (Inl e, w')
      | (Inr block_size, w') \<Rightarrow>
          if js_nonzero (js_rem (js_nat (length fileData)) block_size)
          then (Inl (DataLengthError (length fileData) block_size), w')
          else (case find_chip parts chipName of
                  None \<Rightarrow> (Inl TypeError, w')
                | Some chip \<Rightarrow>
                    (Inr \<lparr>BLOCK_SIZE = block_size,
                          numBlocks = js_div (js_nat (length fileData)) block_size,
                          pageSize = Some (page_size chip)\<rparr>, w')))"

definition writeChipBlocks_blk ::
  "'d device \<Rightarrow> chip list \<Rightarrow> string \<Rightarrow> uint8array \<Rightarrow> write_gen \<Rightarrow> 'd world
   \<Rightarrow> nat gen_event \<times> write_gen \<times> 'd world" where
  "writeChipBlocks_blk dev parts chipName fileData g w =
     (case g of
        WriteFresh \<Rightarrow>
          (case writeChipBlocks_blk_setup dev parts chipName fileData w of
             (Inl e, w') \<Rightarrow> (Throw e, WriteClosed, w')
           | (Inr ps, w') \<Rightarrow> write_block_step dev fileData ps 0 w')
      | WriteAt ps blockId \<Rightarrow> write_block_step dev fileData ps blockId w
      | WriteClosed \<Rightarrow> (Return, WriteClosed, w))"

text \<open>
  For stating what a write call carries: the block that the loop cuts out of \<^verbatim>\<open>fileData\<close>
  for \<^verbatim>\<open>blockId\<close>, and the property that a call, if it is a \<^verbatim>\<open>programmer_write_block\<close>,
  has the page size \<open>page\<close>, the base64 text of its block and the checksum of its block.
\<close>

definition block_of :: "uint8array \<Rightarrow> jsnum \<Rightarrow> nat \<Rightarrow> uint8array" where
  "block_of fileData block_size blockId =
     js_slice fileData (js_mul (js_nat blockId) block_size)
       (js_add (js_mul (js_nat blockId) block_size) block_size)"

definition write_call_carries :: "nat \<Rightarrow> uint8array \<Rightarrow> jsnum \<Rightarrow> rpc_request \<Rightarrow> bool" where
  "write_call_carries page fileData block_size req =
     (case req of
        programmer_write_block blockId chip_page_size data crc \<Rightarrow>
          chip_page_size = Some page
          \<and> Some data = uint8ArrayToBase64 (block_of fileData block_size blockId)
          \<and> crc = write_crc (block_of fileData block_size blockId)
      | _ \<Rightarrow> True)"

section \<open>Erasing a chip: the handler of \<^verbatim>\<open>dom_manager.js\<close>\<close>

text \<open>
  \<^verbatim>\<open>
  export async function startEraseChip(debug = false) {
    const rpcId = await RPCCall("programmer_start_erase_chip", {}, debug);
    const response = await getRPCResponse(rpcId, debug);
    return response.payload.result;
  }
  export async function getEraseDone(debug = false) {
    const rpcId = await RPCCall("programmer_erase_done", {}, debug);
    const response = await getRPCResponse(rpcId, debug);
    return response.payload.result;
  }
  \<close>
  Both are \<^verbatim>\<open>async\<close> functions: a call returns a promise at once. The handler below
  calls them without \<^verbatim>\<open>await\<close>, so all it gets is the promise; the call to the device
  is made, and its answer is lost.
\<close>

definition call_startEraseChip :: "'d device \<Rightarrow> 'd world \<Rightarrow> jsval \<times> 'd world" where
  "call_startEraseChip dev w =
     (case rpc_ack dev programmer_start_erase_chip w of
        (ok, w') \<Rightarrow> (VObject PromiseClass [], w'))"

definition call_getEraseDone :: "'d device \<Rightarrow> 'd world \<Rightarrow> jsval \<times> 'd world" where
  "call_getEraseDone dev w =
     (case rpc_flag dev programmer_erase_done w of
        (finished, w') \<Rightarrow> (VObject PromiseClass [], w'))"

text \<open>
  \<^verbatim>\<open>
  erase.addEventListener('click', async () => {
    log.innerHTML = 'Erasing...';
    progressBar.style.width = '1%';
    startEraseChip(true, DEBUG);
    while (!getEraseDone(true, DEBUG)) {
      await new Promise(resolve => setTimeout(resolve, 1000));
      log.innerHTML += '.';
    }
    progressBar.style.width = '100%';
  });
  \<close>
  The page is the text of the log and the width of the progress bar; the handler also
  returns how many times it slept for a second.
\<close>

record page =
  log_html :: string
  progress_width :: string

function erase_poll :: "'d device \<Rightarrow> nat \<Rightarrow> page \<Rightarrow> 'd world \<Rightarrow> nat \<times> page \<times> 'd world" where
  "erase_poll dev sleeps pg w =
     (case call_getEraseDone dev w of
        (promise, w') \<Rightarrow>
          if \<not> truthy promise
          then erase_poll dev (sleeps + 1) (pg\<lparr>log_html := log_html pg @ ''.''\<rparr>) w'
          else (sleeps, pg, w'))"
  by pat_completeness auto
termination
  by (relation "{}") (auto simp: call_getEraseDone_def truthy_def split: prod.splits)

definition erase_click :: "'d device \<Rightarrow> page \<Rightarrow> 'd world \<Rightarrow> nat \<times> page \<times> 'd world" where
  "erase_click dev pg w =
     (let pg1 = pg\<lparr>log_html := ''Erasing...'', progress_width := ''1%''\<rparr>
      in case call_startEraseChip dev w of
           (started, w1) \<Rightarrow>
             (case erase_poll dev 0 pg1 w1 of
                (sleeps, pg2, w2) \<Rightarrow> (sleeps, pg2\<lparr>progress_width := ''100%''\<rparr>, w2)))"

section \<open>Example devices\<close>



definition sized_device :: "nat \<Rightarrow> nat device" where
  "sized_device b =
     \<lparr>size_reply = (\<lambda>req n. (Some b, Suc n)),
      data_reply = (\<lambda>req n. (Some (js_str ''AQID''), Suc n)),
      ack_reply = (\<lambda>req n. (True, Suc n)),
      flag_reply = (\<lambda>req n. (Some False, Suc n))\<rparr>"

definition fresh_world :: "nat world" where
  "fresh_world = \<lparr>calls = [], dev_state = 0\<rparr>"

text \<open>The chip of the scenario in the specification, and a chip of four bytes.\<close>

definition W25Q32 :: chip where
  "W25Q32 = \<lparr>model = ''W25Q32'', capacity = 4194304, page_size = 256\<rparr>"


definition tiny_chip :: chip where
  "tiny_chip = \<lparr>model = ''tiny'', capacity = 4, page_size = 2\<rparr>"

text \<open>
  A parser for concrete runs of the channel: the text of one code unit \<open>n\<close> stands for
  the success response \<^verbatim>\<open>{"jsonrpc": "2.0", "id": n, "result": true}\<close>, the empty text
  for \<^verbatim>\<open>null\<close>, and any other text is malformed.
\<close>

definition toy_parse :: json_parse where
  "toy_parse msg =
     (case msg of
        [] \<Rightarrow> Some VNull
      | [n] \<Rightarrow> Some (VObject PlainObject
                  [(''jsonrpc'', VStr (js_str ''2.0'')), (''id'', VNum (js_nat n)),
                   (''result'', VBool True)])
      | _ \<Rightarrow> None)"

definition toy_success :: "nat \<Rightarrow> jsval" where
  "toy_success n = envelope ''success'' [(''id'', VNum (js_nat n)), (''result'', VBool True)]"

chapter \<open>Properties\<close>

section \<open>Properties of the checksum\<close>

lemma foldl_add_unat: "foldl (\<lambda>a b. a + unat b) s xs = s + sum_list (map unat xs)"
  by (induction xs arbitrary: s) simp_all

lemma read_crc_valid_nonempty:
  "xs \<noteq> [] \<Longrightarrow>
   read_crc_valid xs = (unat (last xs) = foldl (\<lambda>a b. a + unat b) 0 (butlast xs) mod 256)"
  by (cases xs) (simp_all add: read_crc_valid_def)

text \<open>
  Claim C2. The checksum sent with a written block is the sum of the payload bytes modulo
  256, and a payload followed by that checksum as its last byte always passes the
  validation of the read side.
\<close>

theorem checksum_sum_and_revalidates:
  "write_crc p = sum_list (map unat p) mod 256
   \<and> read_crc_valid (p @ [word_of_nat (write_crc p)])"
proof
  show "write_crc p = sum_list (map unat p) mod 256"
    by (simp add: write_crc_def foldl_add_unat)
next
  have "unat (word_of_nat (write_crc p) :: 8 word) = write_crc p"
    by (simp add: write_crc_def unat_of_nat)
  then show "read_crc_valid (p @ [word_of_nat (write_crc p)])"
    by (simp add: read_crc_valid_nonempty) (simp add: write_crc_def)
qed

section \<open>Properties of the base64 encoding\<close>

lemma b64_alphabet_length: "length b64_alphabet = 64"
  by (simp add: b64_alphabet_def js_str_def)

lemma b64_alphabet_distinct: "distinct b64_alphabet"
  by (simp add: b64_alphabet_def js_str_def)

lemma b64_value_char: "n < 64 \<Longrightarrow> b64_value (b64_char n) = Some n"
  unfolding b64_value_def b64_char_def
  using map_of_zip_nth [of b64_alphabet "[0..<64]" n]
  by (simp add: b64_alphabet_length b64_alphabet_distinct)

lemma b64_value_special:
  "b64_value 9 = None" "b64_value 10 = None" "b64_value 12 = None"
  "b64_value 13 = None" "b64_value 32 = None" "b64_value 61 = None"
  by (simp_all add: b64_value_def b64_alphabet_def js_str_def upt_rec)

lemma b64_char_plain:
  assumes "n < 64"
  shows "\<not> ascii_whitespace (b64_char n)" and "b64_char n \<noteq> 61"
  using b64_value_char [OF assms] b64_value_special
  by (auto simp: ascii_whitespace_def)

lemma sextet_mid1: "b < 256 \<Longrightarrow> a mod 4 * 16 + b div 16 < (64::nat)"
proof -
  assume "b < 256"
  then have "b div 16 < 16" by simp
  moreover have "a mod 4 < 4" by simp
  ultimately show ?thesis by linarith
qed

lemma sextet_mid2: "c < 256 \<Longrightarrow> b mod 16 * 4 + c div 64 < (64::nat)"
proof -
  assume "c < 256"
  then have "c div 64 < 4" by simp
  moreover have "b mod 16 < 16" by simp
  ultimately show ?thesis by linarith
qed

lemma sextet_last2: "b mod 16 * 4 < (64::nat)"
proof -
  have "b mod 16 < 16" by simp
  then show ?thesis by linarith
qed

lemma sextet_last1: "a mod 4 * 16 < (64::nat)"
proof -
  have "a mod 4 < 4" by simp
  then show ?thesis by linarith
qed

lemma byte_first: "b < 256 \<Longrightarrow> a div 4 * 4 + (a mod 4 * 16 + b div 16) div 16 = (a::nat)"
proof -
  assume "b < 256"
  then have "b div 16 < 16" by simp
  then have "(a mod 4 * 16 + b div 16) div 16 = a mod 4" by simp
  then show ?thesis by simp
qed

lemma byte_second:
  "b < 256 \<Longrightarrow> c < 256 \<Longrightarrow>
   (a mod 4 * 16 + b div 16) mod 16 * 16 + (b mod 16 * 4 + c div 64) div 4 = (b::nat)"
proof -
  assume "b < 256" "c < 256"
  then have "b div 16 < 16" "c div 64 < 4" by simp_all
  then have "(a mod 4 * 16 + b div 16) mod 16 = b div 16"
    and "(b mod 16 * 4 + c div 64) div 4 = b mod 16" by simp_all
  then show ?thesis by simp
qed

lemma byte_third: "c < 256 \<Longrightarrow> (b mod 16 * 4 + c div 64) mod 4 * 64 + c mod 64 = (c::nat)"
proof -
  assume "c < 256"
  then have "c div 64 < 4" by simp
  then have "(b mod 16 * 4 + c div 64) mod 4 = c div 64" by simp
  then show ?thesis by simp
qed

lemma byte_second_short:
  "b < 256 \<Longrightarrow> (a mod 4 * 16 + b div 16) mod 16 * 16 + b mod 16 * 4 div 4 = (b::nat)"
  using byte_second [of b 0 a] by simp

lemma byte_first_short: "a div 4 * 4 + a mod 4 * 16 div 16 = (a::nat)"
  by simp

lemma sextet_first: "a < 256 \<Longrightarrow> a div 4 < (64::nat)"
  by simp

lemma b64_sextets_bound:
  "list_all (\<lambda>b. b < 256) bs \<Longrightarrow> list_all (\<lambda>s. s < 64) (b64_sextets bs)"
proof (induction bs rule: b64_sextets.induct)
  case (1 a b c rest)
  then have "a < 256" "b < 256" "c < 256" "list_all (\<lambda>s. s < 64) (b64_sextets rest)"
    by simp_all
  then show ?case
    using sextet_first [of a] sextet_mid1 [of b a] sextet_mid2 [of c b] by simp
next
  case (2 a b)
  then have "a < 256" "b < 256" by simp_all
  then show ?case
    using sextet_first [of a] sextet_mid1 [of b a] sextet_last2 [of b] by simp
next
  case (3 a)
  then have "a < 256" by simp
  then show ?case
    using sextet_first [of a] sextet_last1 [of a] by simp
qed simp

lemma b64_bytes_sextets:
  "list_all (\<lambda>b. b < 256) bs \<Longrightarrow> b64_bytes (b64_sextets bs) = bs"
proof (induction bs rule: b64_sextets.induct)
  case (1 a b c rest)
  then have "a < 256" "b < 256" "c < 256" "b64_bytes (b64_sextets rest) = rest"
    by simp_all
  then show ?case
    by (simp only: b64_sextets.simps b64_bytes.simps append_Cons append_Nil
          byte_first byte_second byte_third)
next
  case (2 a b)
  then have "a < 256" "b < 256" by simp_all
  then show ?case
    by (simp only: b64_sextets.simps b64_bytes.simps byte_first byte_second_short)
next
  case (3 a)
  show ?case
    by (simp only: b64_sextets.simps b64_bytes.simps byte_first_short)
qed simp

lemma b64_padding_step: "b64_padding (a # b # c # rest) = b64_padding rest"
  by (simp add: b64_padding_def)

lemma b64_sextets_length:
  "length (b64_sextets bs) mod 4 \<noteq> 1
   \<and> (length (b64_sextets bs) + length (b64_padding bs)) mod 4 = 0
   \<and> length (b64_padding bs) \<le> 2"
proof (induction bs rule: b64_sextets.induct)
  case (1 a b c rest)
  then show ?case by (simp add: b64_padding_step mod_Suc)
qed (simp_all add: b64_padding_def)

lemma strip_padding_replicate:
  assumes "k \<le> 2" and "xs = [] \<or> last xs \<noteq> 61"
  shows "strip_padding (xs @ replicate k 61) = xs"
proof -
  from assms(1) consider "k = 0" | "k = 1" | "k = 2" by linarith
  then show ?thesis
  proof cases
    case 1
    with assms(2) show ?thesis by (auto simp: strip_padding_def)
  next
    case 2
    with assms(2) show ?thesis by (auto simp: strip_padding_def)
  next
    case 3
    then have "replicate k (61::nat) = [61, 61]"
      by (simp add: numeral_2_eq_2)
    then show ?thesis by (simp add: strip_padding_def butlast_append)
  qed
qed


lemma b64_body_plain:
  assumes "list_all (\<lambda>s. s < 64) sx"
  shows "filter (\<lambda>c. \<not> ascii_whitespace c) (map b64_char sx) = map b64_char sx"
    and "\<not> list_ex (\<lambda>c. b64_value c = None) (map b64_char sx)"
    and "map (\<lambda>c. the (b64_value c)) (map b64_char sx) = sx"
    and "map b64_char sx = [] \<or> last (map b64_char sx) \<noteq> 61"
  using assms
  by (induction sx) (auto simp: b64_char_plain b64_value_char)

lemma b64_padding_plain:
  "filter (\<lambda>c. \<not> ascii_whitespace c) (b64_padding bs) = b64_padding bs"
  by (simp add: b64_padding_def ascii_whitespace_def)

lemma forgiving_base64_roundtrip:
  assumes "list_all (\<lambda>b. b < 256) bs"
  shows "forgiving_base64_decode (forgiving_base64_encode bs) = Some bs"
proof -
  define sx where "sx = b64_sextets bs"
  define body where "body = map b64_char sx"
  have sx: "list_all (\<lambda>s. s < 64) sx"
    unfolding sx_def by (rule b64_sextets_bound [OF assms])
  have len: "length body mod 4 \<noteq> 1" "(length body + length (b64_padding bs)) mod 4 = 0"
    "length (b64_padding bs) \<le> 2"
    using b64_sextets_length [of bs] by (simp_all add: body_def sx_def)
  have d1: "filter (\<lambda>c. \<not> ascii_whitespace c) (forgiving_base64_encode bs)
            = body @ b64_padding bs"
    using b64_body_plain(1) [OF sx]
    by (simp add: forgiving_base64_encode_def b64_padding_plain body_def sx_def)
  have "strip_padding (body @ replicate (length (b64_padding bs)) 61) = body"
    using len(3) b64_body_plain(4) [OF sx]
    unfolding body_def by (rule strip_padding_replicate)
  moreover have "replicate (length (b64_padding bs)) 61 = b64_padding bs"
    by (simp add: b64_padding_def)
  ultimately have d2: "strip_padding (body @ b64_padding bs) = body"
    by simp
  have "b64_bytes (map (\<lambda>c. the (b64_value c)) body) = bs"
    using b64_body_plain(3) [OF sx] b64_bytes_sextets [OF assms]
    by (simp add: body_def sx_def)
  moreover have "\<not> list_ex (\<lambda>c. b64_value c = None) body"
    using b64_body_plain(2) [OF sx] by (simp add: body_def)
  ultimately show ?thesis
    using len(1,2) by (simp add: forgiving_base64_decode_def d1 d2)
qed

lemma binary_string_loop:
  "foldl (\<lambda>binary b. binary @ [unat b]) acc a = acc @ map unat a"
  by (induction a arbitrary: acc) simp_all

lemma uint8_codes: "list_all (\<lambda>b. b < 256) (map unat (a :: uint8array))"
proof (induction a)
  case (Cons x xs)
  have "unat x < 2 ^ LENGTH(8)" by (rule unsigned_less)
  with Cons show ?case by simp
qed simp

text \<open>
  Claim C10. Encoding a byte array with \<^verbatim>\<open>uint8ArrayToBase64\<close> never fails, and decoding
  the result with \<^verbatim>\<open>base64ToUint8Array\<close> gives the byte array back.
\<close>

theorem base64_roundtrip:
  "Option.bind (uint8ArrayToBase64 a) base64ToUint8Array = Some a"
proof -
  have codes: "list_all (\<lambda>b. b < 256) (map unat a)"
    by (rule uint8_codes)
  then have "\<not> list_ex (\<lambda>c. 255 < c) (map unat a)"
    by (induction a) auto
  then have enc: "uint8ArrayToBase64 a = Some (forgiving_base64_encode (map unat a))"
    by (simp add: uint8ArrayToBase64_def btoa_def binary_string_loop)
  have "map (\<lambda>code. word_of_nat code) (map unat a) = a"
    by (induction a) simp_all
  then show ?thesis
    by (simp add: enc base64ToUint8Array_def atob_def forgiving_base64_roundtrip [OF codes])
qed

section \<open>Properties of \<^verbatim>\<open>readChipBlocks\<close>\<close>

declare read_attempts.simps [simp del]











section \<open>The number of blocks to read\<close>

lemma js_div_exact:
  assumes "0 < b" and "b dvd c"
  shows "js_div (js_nat c) (js_nat b) = js_nat (c div b)"
proof -
  from assms(2) obtain k where k: "c = b * k" ..
  with assms(1) have "(of_nat c :: rat) / of_nat b = of_nat (c div b)"
    by simp
  with assms(1) show ?thesis by simp
qed

lemma read_block_step_Return:
  "fst (read_block_step dev append_crc num_blocks i w) = Return
   \<longleftrightarrow> \<not> js_less (js_nat i) num_blocks"
  by (auto simp: read_block_step_def split: prod.splits option.splits)

text \<open>
  Claim C6. When the chip is in the catalog and the device reports a read block size
  \<open>b > 0\<close> that divides the capacity, \<^verbatim>\<open>readChipBlocks\<close> asks for that size once (with
  \<^verbatim>\<open>get_read_block_size\<close> in one copy, \<^verbatim>\<open>get_transmit_packet_size\<close> in the other), and then
  runs its loop with \<^verbatim>\<open>num_blocks\<close> equal to the capacity divided by \<open>b\<close>: the loop ends
  exactly when the block index reaches that quotient.
\<close>

theorem read_block_count:
  fixes dev :: "'d device" and w :: "'d world"
  assumes chip: "find_chip parts chipName = Some chip"
    and pos: "0 < b"
    and dvd: "b dvd capacity chip"
  shows "(\<forall>d. size_reply dev get_read_block_size (dev_state w) = (Some b, d) \<longrightarrow>
           readChipBlocks_blk dev parts chipName append_crc ReadFresh w
             = read_block_step dev append_crc (js_nat (capacity chip div b)) 0
                 \<lparr>calls = calls w @ [get_read_block_size], dev_state = d\<rparr>)
     \<and> (\<forall>d. size_reply dev get_transmit_packet_size (dev_state w) = (Some b, d) \<longrightarrow>
           readChipBlocks_pkt dev parts chipName append_crc ReadFresh w
             = read_block_step dev append_crc (js_nat (capacity chip div b)) 0
                 \<lparr>calls = calls w @ [get_transmit_packet_size], dev_state = d\<rparr>)
     \<and> (\<forall>i w1. fst (read_block_step dev append_crc (js_nat (capacity chip div b)) i w1) = Return
                \<longleftrightarrow> capacity chip div b \<le> i)"
proof (intro conjI allI impI)
  note q = js_div_exact [OF pos dvd]
  show "readChipBlocks_blk dev parts chipName append_crc ReadFresh w
           = read_block_step dev append_crc (js_nat (capacity chip div b)) 0
               \<lparr>calls = calls w @ [get_read_block_size], dev_state = d\<rparr>"
    if "size_reply dev get_read_block_size (dev_state w) = (Some b, d)" for d
    using chip that q
    by (simp add: readChipBlocks_blk_def getNumberOfBlocksForChip_def rpc_size_def)
  show "readChipBlocks_pkt dev parts chipName append_crc ReadFresh w
           = read_block_step dev append_crc (js_nat (capacity chip div b)) 0
               \<lparr>calls = calls w @ [get_transmit_packet_size], dev_state = d\<rparr>"
    if "size_reply dev get_transmit_packet_size (dev_state w) = (Some b, d)" for d
    using chip that q
    by (simp add: readChipBlocks_pkt_def getNumberOfTransmitPackets_def number_of_packets_def
          rpc_size_def)
  show "fst (read_block_step dev append_crc (js_nat (capacity chip div b)) i w1) = Return
                \<longleftrightarrow> capacity chip div b \<le> i" for i w1
    by (simp add: read_block_step_Return not_less)
qed

theorem read_block_count_witness:
  "readChipBlocks_blk (sized_device 256) [W25Q32] ''W25Q32'' True ReadFresh fresh_world
     = read_block_step (sized_device 256) True (js_nat 16384) 0
         \<lparr>calls = [get_read_block_size], dev_state = 1\<rparr>
   \<and> readChipBlocks_pkt (sized_device 256) [W25Q32] ''W25Q32'' True ReadFresh fresh_world
     = read_block_step (sized_device 256) True (js_nat 16384) 0
         \<lparr>calls = [get_transmit_packet_size], dev_state = 1\<rparr>
   \<and> fst (read_block_step (sized_device 256) True (js_nat 16384) 16384 fresh_world) = Return"
proof -
  have chip: "find_chip [W25Q32] ''W25Q32'' = Some W25Q32"
    by (simp add: find_chip_def W25Q32_def)
  have pos: "0 < (256::nat)" by simp
  have dvd: "256 dvd capacity W25Q32" by (simp add: W25Q32_def)
  have blk: "size_reply (sized_device 256) get_read_block_size (dev_state fresh_world) = (Some 256, 1)"
    and pkt: "size_reply (sized_device 256) get_transmit_packet_size (dev_state fresh_world) = (Some 256, 1)"
    by (simp_all add: sized_device_def fresh_world_def)
  have q: "capacity W25Q32 div 256 = 16384" by (simp add: W25Q32_def)
  from read_block_count [OF chip pos dvd, of "sized_device 256" fresh_world True] blk pkt
  show ?thesis
    by (simp add: q fresh_world_def)
qed

section \<open>Properties of \<^verbatim>\<open>writeChipBlocks\<close>\<close>

declare write_attempts.simps [simp del]







lemma write_attempts_calls:
  "write_attempts dev req written attempts w = (wr, a, w')
   \<Longrightarrow> \<exists>n. calls w' = calls w @ replicate n req"
proof (induction dev req written attempts w rule: write_attempts.induct)
  case (1 dev req written attempts w)
  show ?case
  proof (cases "\<not> written \<and> attempts < 3")
    case True
    obtain ok w1 where ack: "rpc_ack dev req w = (ok, w1)" by (cases "rpc_ack dev req w")
    then have c1: "calls w1 = calls w @ [req]"
      by (auto simp: rpc_ack_def split: prod.splits)
    from "1.prems" True ack have "write_attempts dev req ok (attempts + 1) w1 = (wr, a, w')"
      by (subst (asm) write_attempts.simps) simp
    from "1.IH" [OF True ack [symmetric] this] obtain n
      where "calls w' = calls w1 @ replicate n req" ..
    with c1 have "calls w' = calls w @ replicate (Suc n) req"
      by (simp add: replicate_app_Cons_same)
    then show ?thesis ..
  next
    case False
    with "1.prems" have "w' = w" by (subst (asm) write_attempts.simps) auto
    then have "calls w' = calls w @ replicate 0 req" by simp
    then show ?thesis ..
  qed
qed

lemma write_block_step_calls:
  assumes "write_block_step dev fileData ps blockId w = (ev, g, w')"
    and "pageSize ps = Some page"
  shows "\<exists>new. calls w' = calls w @ new
           \<and> list_all (write_call_carries page fileData (BLOCK_SIZE ps)) new
           \<and> (g = WriteClosed \<or> g = WriteAt ps (blockId + 1))"
proof (cases "js_less (js_nat blockId) (numBlocks ps)")
  case False
  with assms(1) have "w' = w" "g = WriteClosed" by (auto simp: write_block_step_def)
  then show ?thesis by simp
next
  case True
  let ?blk = "block_of fileData (BLOCK_SIZE ps) blockId"
  show ?thesis
  proof (cases "uint8ArrayToBase64 ?blk")
    case None
    with True assms(1) have "w' = w" "g = WriteClosed"
      by (auto simp: write_block_step_def block_of_def Let_def)
    then show ?thesis by simp
  next
    case (Some b64)
    let ?req = "programmer_write_block blockId (pageSize ps) b64 (write_crc ?blk)"
    obtain wr a w1 where wa: "write_attempts dev ?req False 0 w = (wr, a, w1)"
      by (cases "write_attempts dev ?req False 0 w")
    from write_attempts_calls [OF wa] obtain n where n: "calls w1 = calls w @ replicate n ?req" ..
    have ok: "write_call_carries page fileData (BLOCK_SIZE ps) ?req"
      using Some assms(2) by (simp add: write_call_carries_def)
    from True Some wa assms(1) have "w' = w1" "g = WriteClosed \<or> g = WriteAt ps (blockId + 1)"
      by (auto simp: write_block_step_def block_of_def Let_def split: if_splits)
    with n ok show ?thesis by (auto simp: list_all_iff)
  qed
qed

lemma drive_write_calls:
  assumes "pageSize ps = Some page"
  shows "g0 = WriteClosed \<or> g0 = WriteAt ps i
   \<Longrightarrow> drive (writeChipBlocks_blk dev parts chipName fileData) k g0 w = (evs, g, w')
   \<Longrightarrow> \<exists>new. calls w' = calls w @ new
           \<and> list_all (write_call_carries page fileData (BLOCK_SIZE ps)) new"
proof (induction k arbitrary: g0 i w evs g w')
  case 0
  then show ?case by simp
next
  case (Suc k)
  let ?nxt = "writeChipBlocks_blk dev parts chipName fileData"
  obtain ev g1 w1 where nx: "?nxt g0 w = (ev, g1, w1)" by (cases "?nxt g0 w")
  have first: "\<exists>new. calls w1 = calls w @ new
           \<and> list_all (write_call_carries page fileData (BLOCK_SIZE ps)) new
           \<and> (g1 = WriteClosed \<or> g1 = WriteAt ps (i + 1))"
  proof (cases "g0 = WriteClosed")
    case True
    with nx show ?thesis by (simp add: writeChipBlocks_blk_def)
  next
    case False
    with Suc.prems(1) have "g0 = WriteAt ps i" by simp
    with nx have "write_block_step dev fileData ps i w = (ev, g1, w1)"
      by (simp add: writeChipBlocks_blk_def)
    from write_block_step_calls [OF this assms] show ?thesis .
  qed
  then obtain new1 where new1: "calls w1 = calls w @ new1"
      "list_all (write_call_carries page fileData (BLOCK_SIZE ps)) new1"
      "g1 = WriteClosed \<or> g1 = WriteAt ps (i + 1)" by blast
  show ?case
  proof (cases ev)
    case (Yield x)
    obtain evs2 g2 w2 where dr: "drive ?nxt k g1 w1 = (evs2, g2, w2)"
      by (cases "drive ?nxt k g1 w1")
    from Suc.IH [OF new1(3) dr] obtain new2 where new2: "calls w2 = calls w1 @ new2"
      "list_all (write_call_carries page fileData (BLOCK_SIZE ps)) new2" by blast
    from Suc.prems(2) nx Yield dr have "w' = w2" by simp
    with new1 new2 have "calls w' = calls w @ (new1 @ new2)"
      "list_all (write_call_carries page fileData (BLOCK_SIZE ps)) (new1 @ new2)" by simp_all
    then show ?thesis by blast
  next
    case (Throw e)
    with Suc.prems(2) nx have "w' = w1" by simp
    with new1 show ?thesis by blast
  next
    case Return
    with Suc.prems(2) nx have "w' = w1" by simp
    with new1 show ?thesis by blast
  qed
qed

text \<open>
  Claim C7, as the code has it. In the copy of \<^verbatim>\<open>programmer.js\<close> that asks for
  \<^verbatim>\<open>get_write_block_size\<close>, every \<^verbatim>\<open>programmer_write_block\<close> call that a consumer of
  \<^verbatim>\<open>writeChipBlocks\<close> causes, however many blocks it pulls, carries the page size of the
  chip's catalog entry, the block id, the base64 text of that block and the additive
  checksum of that block.
\<close>

theorem write_calls_carry_page_size:
  fixes dev :: "'d device" and w :: "'d world"
  assumes chip: "find_chip parts chipName = Some chip"
    and blk: "size_reply dev get_write_block_size (dev_state w) = (Some b, d)"
    and run: "drive (writeChipBlocks_blk dev parts chipName fileData) k WriteFresh w = (evs, g, w')"
  shows "\<exists>new. calls w' = calls w @ new
           \<and> list_all (write_call_carries (page_size chip) fileData (js_nat b)) new"
proof (cases k)
  case 0
  with run show ?thesis by simp
next
  case (Suc k')
  let ?nxt = "writeChipBlocks_blk dev parts chipName fileData"
  let ?w1 = "\<lparr>calls = calls w @ [get_write_block_size], dev_state = d\<rparr>"
  let ?ps = "\<lparr>BLOCK_SIZE = js_nat b,
              numBlocks = js_div (js_nat (length fileData)) (js_nat b),
              pageSize = Some (page_size chip)\<rparr>"
  have q: "write_call_carries (page_size chip) fileData (js_nat b) get_write_block_size"
    by (simp add: write_call_carries_def)
  show ?thesis
  proof (cases "js_nonzero (js_rem (js_nat (length fileData)) (js_nat b))")
    case True
    with blk have "?nxt WriteFresh w = (Throw (DataLengthError (length fileData) (js_nat b)), WriteClosed, ?w1)"
      by (simp add: writeChipBlocks_blk_def writeChipBlocks_blk_setup_def getBlockSize_def
            rpc_size_def del: js_rem.simps)
    with run Suc have "w' = ?w1" by simp
    with q show ?thesis by simp
  next
    case False
    with blk chip have nx: "?nxt WriteFresh w = write_block_step dev fileData ?ps 0 ?w1"
      by (simp add: writeChipBlocks_blk_def writeChipBlocks_blk_setup_def getBlockSize_def
            rpc_size_def del: js_rem.simps js_div.simps)
    obtain ev g1 w2 where st: "write_block_step dev fileData ?ps 0 ?w1 = (ev, g1, w2)"
      by (cases "write_block_step dev fileData ?ps 0 ?w1")
    have ps: "pageSize ?ps = Some (page_size chip)" by simp
    from write_block_step_calls [OF st ps] obtain new1 where new1:
      "calls w2 = calls ?w1 @ new1"
      "list_all (write_call_carries (page_size chip) fileData (js_nat b)) new1"
      "g1 = WriteClosed \<or> g1 = WriteAt ?ps (0 + 1)" by auto
    show ?thesis
    proof (cases ev)
      case (Yield x)
      obtain evs2 g2 w3 where dr: "drive ?nxt k' g1 w2 = (evs2, g2, w3)"
        by (cases "drive ?nxt k' g1 w2")
      from drive_write_calls [OF ps new1(3) dr] obtain new2 where new2:
        "calls w3 = calls w2 @ new2"
        "list_all (write_call_carries (page_size chip) fileData (js_nat b)) new2" by auto
      from run Suc nx st Yield dr have "w' = w3" by simp
      with new1 new2 q have "calls w' = calls w @ (get_write_block_size # new1 @ new2)"
        "list_all (write_call_carries (page_size chip) fileData (js_nat b))
           (get_write_block_size # new1 @ new2)" by simp_all
      then show ?thesis by blast
    next
      case (Throw e)
      with run Suc nx st have "w' = w2" by simp
      with new1 q have "calls w' = calls w @ (get_write_block_size # new1)"
        "list_all (write_call_carries (page_size chip) fileData (js_nat b))
           (get_write_block_size # new1)" by simp_all
      then show ?thesis by blast
    next
      case Return
      with run Suc nx st have "w' = w2" by simp
      with new1 q have "calls w' = calls w @ (get_write_block_size # new1)"
        "list_all (write_call_carries (page_size chip) fileData (js_nat b))
           (get_write_block_size # new1)" by simp_all
      then show ?thesis by blast
    qed
  qed
qed


theorem write_calls_carry_page_size_witness:
  "drive (writeChipBlocks_blk (sized_device 2) [tiny_chip] ''tiny'' [1, 2, 3, 4]) 3 WriteFresh fresh_world
     = ([Yield 0, Yield 1, Return], WriteClosed,
        \<lparr>calls = [get_write_block_size,
                   programmer_write_block 0 (Some 2) (js_str ''AQI='') 3,
                   programmer_write_block 1 (Some 2) (js_str ''AwQ='') 7], dev_state = 3\<rparr>)
   \<and> list_all (write_call_carries (page_size tiny_chip) [1, 2, 3, 4] (js_nat 2))
        [get_write_block_size,
         programmer_write_block 0 (Some 2) (js_str ''AQI='') 3,
         programmer_write_block 1 (Some 2) (js_str ''AwQ='') 7]"
proof -
  let ?calls = "[get_write_block_size,
                 programmer_write_block 0 (Some 2) (js_str ''AQI='') 3,
                 programmer_write_block 1 (Some 2) (js_str ''AwQ='') 7]"
  have chip: "find_chip [tiny_chip] ''tiny'' = Some tiny_chip"
    by (simp add: find_chip_def tiny_chip_def)
  have blk: "size_reply (sized_device 2) get_write_block_size (dev_state fresh_world) = (Some 2, 1)"
    by (simp add: sized_device_def fresh_world_def)
  have run: "drive (writeChipBlocks_blk (sized_device 2) [tiny_chip] ''tiny'' [1, 2, 3, 4]) 3
               WriteFresh fresh_world
             = ([Yield 0, Yield 1, Return], WriteClosed, \<lparr>calls = ?calls, dev_state = 3\<rparr>)"
    by code_simp
  from write_calls_carry_page_size [OF chip blk run]
  have "list_all (write_call_carries (page_size tiny_chip) [1, 2, 3, 4] (js_nat 2)) ?calls"
    by (simp add: fresh_world_def)
  with run show ?thesis by simp
qed

text \<open>
  The other copy of \<^verbatim>\<open>programmer.js\<close> never reads the page size: its calls have a block
  id, the data and the checksum only.
\<close>

theorem write_calls_carry_page_size_counterexample:
  "writeChipBlocks_pkt (sized_device 2) [tiny_chip] ''tiny'' [1, 2, 3, 4] WriteFresh fresh_world
     = (Yield 0, WriteAt \<lparr>BLOCK_SIZE = Num 2, numBlocks = Num 2, pageSize = None\<rparr> 1,
        \<lparr>calls = [get_receive_packet_size, programmer_write_block 0 None (js_str ''AQI='') 3],
           dev_state = 2\<rparr>)
   \<and> \<not> write_call_carries (page_size tiny_chip) [1, 2, 3, 4] (js_nat 2)
         (programmer_write_block 0 None (js_str ''AQI='') 3)"
proof
  show "writeChipBlocks_pkt (sized_device 2) [tiny_chip] ''tiny'' [1, 2, 3, 4] WriteFresh fresh_world
     = (Yield 0, WriteAt \<lparr>BLOCK_SIZE = Num 2, numBlocks = Num 2, pageSize = None\<rparr> 1,
        \<lparr>calls = [get_receive_packet_size, programmer_write_block 0 None (js_str ''AQI='') 3],
           dev_state = 2\<rparr>)"
    by code_simp
  show "\<not> write_call_carries (page_size tiny_chip) [1, 2, 3, 4] (js_nat 2)
         (programmer_write_block 0 None (js_str ''AQI='') 3)"
    by (simp add: write_call_carries_def)
qed

section \<open>Properties of the channel manager\<close>

lemma on_message_length:
  "length buf \<le> 64 \<Longrightarrow> length (on_message parse h buf data) \<le> 64"
  by (auto simp: on_message_def Let_def split: sum.splits)

lemma receive_all_snoc:
  "receive_all parse h (msgs @ [data]) = on_message parse h (receive_all parse h msgs) data"
  by (simp add: receive_all_def)

lemma receive_all_length: "length (receive_all parse h msgs) \<le> 64"
proof (induction msgs rule: rev_induct)
  case Nil
  show ?case by (simp add: receive_all_def)
next
  case (snoc data msgs)
  then show ?case by (simp only: receive_all_snoc on_message_length)
qed

lemma on_message_push:
  assumes "length buf \<le> 64" and "deserialize parse h data = Inr response"
  shows "on_message parse h buf data
         = (if length buf < 64 then buf @ [response] else tl buf @ [response])"
proof (cases buf)
  case Nil
  with assms show ?thesis by (simp add: on_message_def)
next
  case (Cons x xs)
  with assms show ?thesis by (auto simp: on_message_def Let_def)
qed

text \<open>
  Claim C8. After any sequence of inbound messages the buffer holds at most 64 entries.
  The listener appends what \<^verbatim>\<open>deserialize\<close> returns at the end; when that makes 65
  entries, the first (the oldest) is dropped and no other. Nothing in the listener looks
  at whether an entry was read. A message on which \<^verbatim>\<open>deserialize\<close> throws leaves the
  buffer as it was.
\<close>

theorem receive_buffer_bounded:
  "length (receive_all parse h msgs) \<le> 64
   \<and> receive_all parse h (msgs @ [data]) = on_message parse h (receive_all parse h msgs) data
   \<and> (\<forall>response. deserialize parse h data = Inr response \<longrightarrow>
         on_message parse h (receive_all parse h msgs) data
           = (if length (receive_all parse h msgs) < 64
              then receive_all parse h msgs @ [response]
              else tl (receive_all parse h msgs) @ [response]))
   \<and> (\<forall>e. deserialize parse h data = Inl e \<longrightarrow>
         on_message parse h (receive_all parse h msgs) data = receive_all parse h msgs)"
proof (intro conjI allI impI)
  show "length (receive_all parse h msgs) \<le> 64"
    by (rule receive_all_length)
  show "receive_all parse h (msgs @ [data]) = on_message parse h (receive_all parse h msgs) data"
    by (rule receive_all_snoc)
  show "on_message parse h (receive_all parse h msgs) data
           = (if length (receive_all parse h msgs) < 64
              then receive_all parse h msgs @ [response]
              else tl (receive_all parse h msgs) @ [response])"
    if "deserialize parse h data = Inr response" for response
    using receive_all_length that by (rule on_message_push)
  show "on_message parse h (receive_all parse h msgs) data = receive_all parse h msgs"
    if "deserialize parse h data = Inl e" for e
    using that by (simp add: on_message_def)
qed

lemma toy_deserialize: "deserialize toy_parse None [n] = Inr (toy_success n)"
  by (simp add: deserialize_def toy_parse_def deserializeObject_def get_prop_def
        call_hasOwnProperty_def isString_def toy_success_def js_str_def proto_prop_def)

lemma toy_run: "receive_all toy_parse None (map (\<lambda>n. [n]) [0..<64]) = map toy_success [0..<64]"
  by code_simp


theorem receive_buffer_bounded_witness:
  "length (receive_all toy_parse None (map (\<lambda>n. [n]) [0..<64])) = 64
   \<and> receive_all toy_parse None (map (\<lambda>n. [n]) [0..<64] @ [[64]])
       = map toy_success [1..<64] @ [toy_success 64]
   \<and> receive_all toy_parse None (map (\<lambda>n. [n]) [0..<64] @ [[]])
       = map toy_success [0..<64]"
proof -
  let ?msgs = "map (\<lambda>n. [n]) [0..<64]"
  have full: "length (receive_all toy_parse None ?msgs) = 64"
    by (simp add: toy_run)
  have null: "deserialize toy_parse None [] = Inl TypeError"
    by (simp add: deserialize_def toy_parse_def deserializeObject_def)
  have tl: "tl (map toy_success [0..<64]) = map toy_success [1..<64]"
    by (simp add: upt_rec [of 0])
  from receive_buffer_bounded [of toy_parse None ?msgs "[64]"] toy_deserialize [of 64] full
  have a: "receive_all toy_parse None (?msgs @ [[64]]) = map toy_success [1..<64] @ [toy_success 64]"
    by (simp add: toy_run tl del: upt_Suc)
  from receive_buffer_bounded [of toy_parse None ?msgs "[]"] null
  have b: "receive_all toy_parse None (?msgs @ [[]]) = map toy_success [0..<64]"
    by (simp add: toy_run del: upt_Suc)
  from full a b show ?thesis by blast
qed

section \<open>Properties of the envelope codec\<close>

lemma rem1_integer: "\<not> rem1_nonzero (VNum (Num (of_int n)))"
proof -
  have "js_trunc (of_int n) = n" by (simp add: js_trunc_def)
  then show ?thesis by (simp add: rem1_nonzero_def js_nonzero_def)
qed

lemma checkErrorId_ok:
  assumes "ident = VNull \<or> isString ident \<or> (\<exists>n. ident = VNum (Num (of_int n)))"
  shows "checkErrorId ident errors = errors"
  using assms rem1_integer by (auto simp: checkErrorId_def isNull_def isNumber_def)

lemma checkError_ok:
  assumes "instanceof_JsonRpcError errdata" and "isString (get_prop errdata ''message'')"
  shows "checkError errdata errors = errors"
proof -
  from assms(1) have "isObject errdata"
    by (cases errdata) (simp_all add: instanceof_JsonRpcError_def isObject_def)
  with assms show ?thesis by (simp add: checkError_def Let_def)
qed

text \<open>
  Claim C9, as the code has it. \<^verbatim>\<open>jsonrpc.error(id, errdata)\<close> returns the serialized
  envelope, and not a list of validation messages, whenever the id is \<^verbatim>\<open>null\<close>, a string
  or an integer and \<^verbatim>\<open>errdata\<close> is an instance of \<^verbatim>\<open>JsonRpcError\<close> or of a class derived
  from it whose \<^verbatim>\<open>message\<close> is a string.
\<close>

theorem error_envelope_constructed:
  assumes "ident = VNull \<or> isString ident \<or> (\<exists>n. ident = VNum (Num (of_int n)))"
    and "instanceof_JsonRpcError errdata"
    and "isString (get_prop errdata ''message'')"
  shows "jsonrpc_error h ident errdata = Inr (Serialized (errorObject ident errdata))"
proof -
  let ?data = "VObject PlainObject [(''id'', ident), (''error'', errdata)]"
  have "get_prop ?data ''id'' = ident" "get_prop ?data ''error'' = errdata"
    by (simp_all add: get_prop_def)
  then have "validateMessageStructure ''error'' ?data = None"
    by (simp add: validateMessageStructure_def checkErrorId_ok [OF assms(1)]
          checkError_ok [OF assms(2,3)])
  then show ?thesis by (simp add: jsonrpc_error_def)
qed

theorem error_envelope_constructed_witness:
  "jsonrpc_error None (VNum (Num 7)) (new_InvalidRequestError [VNull])
     = Inr (Serialized (errorObject (VNum (Num 7)) (new_InvalidRequestError [VNull])))
   \<and> jsonrpc_error None VNull (new_JsonRpcError (VStr (js_str ''boom'')) [])
     = Inr (Serialized (errorObject VNull (new_JsonRpcError (VStr (js_str ''boom'')) [])))"
proof
  have "VNum (Num 7) = VNull \<or> isString (VNum (Num 7)) \<or> (\<exists>n. VNum (Num 7) = VNum (Num (of_int n)))"
    by (intro disjI2 exI [of _ 7]) simp
  moreover have "instanceof_JsonRpcError (new_InvalidRequestError [VNull])"
    by (simp add: new_InvalidRequestError_def instanceof_JsonRpcError_def subclass_of_JsonRpcError_def)
  moreover have "isString (get_prop (new_InvalidRequestError [VNull]) ''message'')"
    by (simp add: new_InvalidRequestError_def get_prop_def isString_def)
  ultimately show "jsonrpc_error None (VNum (Num 7)) (new_InvalidRequestError [VNull])
     = Inr (Serialized (errorObject (VNum (Num 7)) (new_InvalidRequestError [VNull])))"
    by (rule error_envelope_constructed)
next
  have "VNull = VNull \<or> isString VNull \<or> (\<exists>n. VNull = VNum (Num (of_int n)))"
    by simp
  moreover have "instanceof_JsonRpcError (new_JsonRpcError (VStr (js_str ''boom'')) [])"
    by (simp add: new_JsonRpcError_def instanceof_JsonRpcError_def subclass_of_JsonRpcError_def)
  moreover have "isString (get_prop (new_JsonRpcError (VStr (js_str ''boom'')) []) ''message'')"
    by (simp add: new_JsonRpcError_def get_prop_def isString_def)
  ultimately show "jsonrpc_error None VNull (new_JsonRpcError (VStr (js_str ''boom'')) [])
     = Inr (Serialized (errorObject VNull (new_JsonRpcError (VStr (js_str ''boom'')) [])))"
    by (rule error_envelope_constructed)
qed

text \<open>
  An object with an integer code and a string message that is not an instance of
  \<^verbatim>\<open>JsonRpcError\<close> is refused, be it a plain object or an \<^verbatim>\<open>Error\<close>.
\<close>

theorem error_envelope_constructed_counterexample:
  "jsonrpc_error None VNull
     (VObject PlainObject [(''code'', VNum (Num (- 32000))), (''message'', VStr (js_str ''boom''))])
     = Inr (ValidationErrors [''Error must be an instance of JsonRpcError, or any derivatives of it''])
   \<and> jsonrpc_error None (VNum (Num 7))
     (VObject ErrorClass [(''message'', VStr (js_str ''boom'')), (''code'', VNum (Num (- 32000)))])
     = Inr (ValidationErrors [''Error must be an instance of JsonRpcError, or any derivatives of it''])"
  by (simp add: jsonrpc_error_def validateMessageStructure_def checkErrorId_def checkError_def
        get_prop_def isNull_def isString_def isNumber_def isObject_def rem1_nonzero_def
        js_nonzero_def js_trunc_def instanceof_JsonRpcError_def subclass_of_JsonRpcError_def
        run_errorHandler_def)

section \<open>Properties of \<^verbatim>\<open>getRPCResponse\<close>\<close>

declare getRPCResponse_poll.simps [simp del]

text \<open>
  What \<^verbatim>\<open>getRPCResponse\<close> does, from poll \<open>k\<close> on: it sleeps \<open>k' - k\<close> times, 100 ms
  and the timer's lateness each time; at each of these polls less than 40 seconds had
  passed and the buffer had no entry for the id; it then either finds the first entry for
  the id before the 40 seconds are over, throwing if it is of type \<^verbatim>\<open>error\<close> and returning
  it otherwise, or finds the 40 seconds over and throws the timeout error.
\<close>

lemma getRPCResponse_poll_result:
  assumes "getRPCResponse_poll env ident k elapsed = (res, k', elapsed')"
  shows "k \<le> k'
     \<and> elapsed' = elapsed + (\<Sum>j = k..<k'. 100 + late env j)
     \<and> (\<forall>j. k \<le> j \<and> j < k' \<longrightarrow>
            elapsed + (\<Sum>i = k..<j. 100 + late env i) < 40000
            \<and> find (matches_id ident) (buffer_at env j) = None)
     \<and> (if elapsed' < 40000
         then \<exists>response. find (matches_id ident) (buffer_at env k') = Some response
                \<and> res = (if get_prop response ''type'' = VStr (js_str ''error'')
                          then Inl (RpcErrorResponse ident ''[object Object]'')
                          else Inr response)
         else res = Inl (RpcTimeout ident))"
  using assms
proof (induction env ident k elapsed rule: getRPCResponse_poll.induct)
  case (1 env ident k elapsed)
  show ?case
  proof (cases "elapsed < 40000")
    case False
    with "1.prems" have "res = Inl (RpcTimeout ident) \<and> k' = k \<and> elapsed' = elapsed"
      by (subst (asm) getRPCResponse_poll.simps) auto
    with False show ?thesis by auto
  next
    case True
    show ?thesis
    proof (cases "find (matches_id ident) (buffer_at env k)")
      case (Some response)
      with True "1.prems"
      have "res = (if get_prop response ''type'' = VStr (js_str ''error'')
                   then Inl (RpcErrorResponse ident ''[object Object]'')
                   else Inr response) \<and> k' = k \<and> elapsed' = elapsed"
        by (subst (asm) getRPCResponse_poll.simps) (auto simp: template_object_def split: if_splits)
      with True Some show ?thesis by auto
    next
      case None
      with True "1.prems"
      have rec: "getRPCResponse_poll env ident (Suc k) (elapsed + 100 + late env k)
                 = (res, k', elapsed')"
        by (subst (asm) getRPCResponse_poll.simps) simp
      note ih = "1.IH" [OF True None rec]
      from ih have le: "Suc k \<le> k'" by simp
      have split: "(\<Sum>i = k..<j. 100 + late env i)
                 = (100 + late env k) + (\<Sum>i = Suc k..<j. 100 + late env i)" if "k < j" for j
        using that by (simp add: sum.atLeast_Suc_lessThan)
      have early: "elapsed + (\<Sum>i = k..<j. 100 + late env i) < 40000
            \<and> find (matches_id ident) (buffer_at env j) = None" if "k \<le> j" "j < k'" for j
      proof (cases "j = k")
        case True
        with None \<open>elapsed < 40000\<close> show ?thesis by simp
      next
        case False
        with that have "Suc k \<le> j" "k < j" by simp_all
        with that ih split [of j] show ?thesis by (simp add: add.assoc)
      qed
      have total: "elapsed' = elapsed + (\<Sum>j = k..<k'. 100 + late env j)"
        using ih le split [of k'] by (simp add: add.assoc)
      from ih have last: "if elapsed' < 40000
         then \<exists>response. find (matches_id ident) (buffer_at env k') = Some response
                \<and> res = (if get_prop response ''type'' = VStr (js_str ''error'')
                          then Inl (RpcErrorResponse ident ''[object Object]'')
                          else Inr response)
         else res = Inl (RpcTimeout ident)" by simp
      from le early total last show ?thesis by simp
    qed
  qed
qed

text \<open>With timers that fire on time: 400 sleeps, then the timeout at 40 seconds.\<close>

lemma getRPCResponse_silent: "getRPCResponse silent ident = (Inl (RpcTimeout ident), 400, 40000)"
proof -
  obtain res k' elapsed' where r: "getRPCResponse_poll silent ident 0 0 = (res, k', elapsed')"
    by (cases "getRPCResponse_poll silent ident 0 0")
  note spec = getRPCResponse_poll_result [OF r]
  from spec have e: "elapsed' = 100 * k'" by (simp add: silent_def)
  from spec have late: "\<not> elapsed' < 40000" and res: "res = Inl (RpcTimeout ident)"
    by (auto simp: silent_def split: if_splits)
  from spec have early: "j < k' \<Longrightarrow> 100 * j < 40000" for j
    by (simp add: silent_def)
  have "k' = 400"
  proof (rule ccontr)
    assume ne: "k' \<noteq> 400"
    from late e have "400 \<le> k'" by simp
    with ne have "400 < k'" by simp
    from early [OF this] show False by simp
  qed
  with e res r show ?thesis by (simp add: getRPCResponse_def)
qed

text \<open>
  Claim C4, at an error response. The message of the error that \<^verbatim>\<open>getRPCResponse\<close>
  throws renders the payload as \<^verbatim>\<open>[object Object]\<close>: two error responses to the same
  call with different payloads throw the same error.
\<close>

theorem rpc_error_payload_not_carried:
  "getRPCResponse (holding method_not_found_response) 1
     = (Inl (RpcErrorResponse 1 ''[object Object]''), 0, 0)
   \<and> getRPCResponse (holding invalid_params_response) 1
     = (Inl (RpcErrorResponse 1 ''[object Object]''), 0, 0)
   \<and> get_prop method_not_found_response ''payload'' \<noteq> get_prop invalid_params_response ''payload''"
  by (simp add: getRPCResponse_def getRPCResponse_poll.simps holding_def matches_id_def
        method_not_found_response_def invalid_params_response_def envelope_def get_prop_def
        truthy_def template_object_def js_str_def)


section \<open>Properties of the erase handler\<close>

declare erase_poll.simps [simp del]

lemma call_getEraseDone_promise:
  "call_getEraseDone dev w
   = (VObject PromiseClass [],
      \<lparr>calls = calls w @ [programmer_erase_done],
         dev_state = snd (flag_reply dev programmer_erase_done (dev_state w))\<rparr>)"
  by (simp add: call_getEraseDone_def rpc_flag_def split: prod.splits)

lemma erase_poll_once:
  "erase_poll dev sleeps pg w
   = (sleeps, pg,
      \<lparr>calls = calls w @ [programmer_erase_done],
         dev_state = snd (flag_reply dev programmer_erase_done (dev_state w))\<rparr>)"
  by (subst erase_poll.simps) (simp add: call_getEraseDone_promise truthy_def)

lemma erase_click_returns_at_once:
  "erase_click dev pg w
   = (0, \<lparr>log_html = ''Erasing...'', progress_width = ''100%''\<rparr>,
      \<lparr>calls = calls w @ [programmer_start_erase_chip, programmer_erase_done],
         dev_state = snd (flag_reply dev programmer_erase_done
                       (snd (ack_reply dev programmer_start_erase_chip (dev_state w))))\<rparr>)"
  by (simp add: erase_click_def call_startEraseChip_def rpc_ack_def erase_poll_once
        split: prod.splits)

text \<open>
  Claim C5, at a device whose erase has not finished. The handler asks
  \<^verbatim>\<open>programmer_erase_done\<close> once, does not wait for the answer (here \<^verbatim>\<open>false\<close>), never
  sleeps, and sets the progress bar to 100%.
\<close>

theorem erase_click_does_not_wait:
  "flag_reply (sized_device 256) programmer_erase_done 1 = (Some False, 2)
   \<and> erase_click (sized_device 256) \<lparr>log_html = [], progress_width = []\<rparr> fresh_world
     = (0, \<lparr>log_html = ''Erasing...'', progress_width = ''100%''\<rparr>,
        \<lparr>calls = [programmer_start_erase_chip, programmer_erase_done], dev_state = 2\<rparr>)"
  by (simp add: erase_click_returns_at_once sized_device_def fresh_world_def)

end
